theory Spec2Isabelle
  imports Main "HOL-Library.Sublist" "HOL-Library.AList"
begin

section \<open>Python values and strings\<close>

text \<open>
  A Python \<open>str\<close> is a sequence of Unicode code points: \<open>len\<close>, slicing, \<open>strip\<close> and
  \<open>re.split\<close> all count code points, so a string is a list of code point numbers.
  Bytes (\<open>bytes\<close>, as \<open>response.iter_lines()\<close> gives them) are a \<open>char list\<close>.
\<close>

type_synonym pystr = "nat list"

definition ascii :: "string \<Rightarrow> pystr" where
  "ascii s = map of_char s"

text \<open>\<open>str.isspace\<close> for one code point: the table of CPython's \<open>_PyUnicode_IsWhitespace\<close>.\<close>

definition py_isspace :: "nat \<Rightarrow> bool" where
  "py_isspace c \<longleftrightarrow>
     (0x9 \<le> c \<and> c \<le> 0xD) \<or> (0x1C \<le> c \<and> c \<le> 0x20) \<or> c = 0x85 \<or> c = 0xA0 \<or>
     c = 0x1680 \<or> (0x2000 \<le> c \<and> c \<le> 0x200A) \<or> c = 0x2028 \<or> c = 0x2029 \<or>
     c = 0x202F \<or> c = 0x205F \<or> c = 0x3000"

text \<open>\<open>s.strip()\<close>: leading and trailing whitespace removed.\<close>

definition py_strip :: "pystr \<Rightarrow> pystr" where
  "py_strip s = rev (dropWhile py_isspace (rev (dropWhile py_isspace s)))"

section \<open>Sentence splitting (core/duplicate.py, step 2)\<close>

text \<open>The character class \<open>[\<dots>]\<close> of the pattern: fullwidth comma U+FF0C, ideographic full stop U+3002.\<close>

definition is_delim :: "nat \<Rightarrow> bool" where
  "is_delim c \<longleftrightarrow> c = 0xFF0C \<or> c = 0x3002"

text \<open>
  \<open>re.split\<close> with a one-character class and no groups: the text is cut at every
  delimiter, and every piece is kept, the empty ones too.
\<close>

fun re_split :: "pystr \<Rightarrow> pystr list" where
  "re_split [] = [[]]"
| "re_split (c # cs) =
     (if is_delim c then [] # re_split cs
      else (case re_split cs of [] \<Rightarrow> [[c]] | f # fs \<Rightarrow> (c # f) # fs))"

text \<open>\<open>[sentence.strip() for sentence in sentences if sentence.strip()]\<close>\<close>

definition split_sentences :: "pystr \<Rightarrow> pystr list" where
  "split_sentences content = [py_strip s. s \<leftarrow> re_split content, py_strip s \<noteq> []]"


section \<open>Python values, exceptions and the runtime library\<close>

text \<open>
  The values that \<open>json.loads\<close> returns and that a configuration dictionary holds.
  No arithmetic is done on a float anywhere in the pipeline (a score is only stored and
  formatted), so a float is kept as the text that \<open>repr\<close> prints for it, which
  determines it. A \<open>dict\<close> with string keys is an association list in insertion order,
  looked up with \<open>map_of\<close>.
\<close>

datatype pyval =
    PNone
  | PBool bool
  | PInt int
  | PFloat string
  | PStr pystr
  | PList "pyval list"
  | PDict "(pystr \<times> pyval) list"

text \<open>Truth value testing (\<open>if not value\<close>, \<open>if result and \<dots>\<close>).\<close>

fun py_truthy :: "pyval \<Rightarrow> bool" where
  "py_truthy PNone = False"
| "py_truthy (PBool b) = b"
| "py_truthy (PInt i) = (i \<noteq> 0)"
| "py_truthy (PFloat r) = (r \<noteq> ''0.0'' \<and> r \<noteq> ''-0.0'')"
| "py_truthy (PStr s) = (s \<noteq> [])"
| "py_truthy (PList xs) = (xs \<noteq> [])"
| "py_truthy (PDict kvs) = (kvs \<noteq> [])"

fun is_dict :: "pyval \<Rightarrow> bool" where
  "is_dict (PDict kvs) = True"
| "is_dict v = False"

text \<open>\<open>d.get(k, default)\<close> on a dictionary.\<close>

definition dict_get :: "(pystr \<times> pyval) list \<Rightarrow> pystr \<Rightarrow> pyval \<Rightarrow> pyval" where
  "dict_get kvs k d = (case map_of kvs k of None \<Rightarrow> d | Some v \<Rightarrow> v)"

text \<open>
  The exceptions that the modelled code raises or lets through. Those whose message the
  repository's code composes carry it; the interpreter's own messages are left out.
\<close>

datatype exn =
    AssertionError
  | AttributeError
  | TypeError
  | KeyError pyval
  | IndexError
  | ValueError pystr
  | Exception pystr
  | FileNotFoundError pystr
  | FileExistsError pystr
  | IsADirectoryError
  | NotADirectoryError
  | ConnectionError
  | UnicodeDecodeError
  | RecursionError
  | LibraryError

text \<open>
  How \<open>json.loads\<close> can fail: with a \<open>JSONDecodeError\<close>, given by its text \<open>str(e)\<close>,
  or with another exception (\<open>RecursionError\<close> on a deeply nested text, \<open>ValueError\<close>
  on an integer of too many digits).
\<close>

datatype loads_error = JSONDecodeError pystr | OtherError exn

text \<open>Decimal digits of a natural number and \<open>str\<close> of an \<open>int\<close>.\<close>

fun str_nat :: "nat \<Rightarrow> pystr" where
  "str_nat n = (if n < 10 then [48 + n] else str_nat (n div 10) @ [48 + n mod 10])"

declare str_nat.simps [simp del]

definition str_int :: "int \<Rightarrow> pystr" where
  "str_int i = (if i < 0 then 45 # str_nat (nat (- i)) else str_nat (nat i))"

text \<open>
  What the code takes from the Python runtime and from third-party libraries, and what
  the surroundings choose at run time. None of it is code of this repository, so it is a
  parameter of the model:
  \<^item> \<open>json_loads\<close>: \<open>json.loads\<close>, \<open>Inl\<close> the way it failed;
  \<^item> \<open>json_dumps\<close>: \<open>json.dumps(\<dots>, ensure_ascii=False)\<close>, which the code applies to
    values that \<open>json.loads\<close> returned and to its own two error objects;
  \<^item> \<open>utf8_decode\<close>: \<open>bytes.decode('utf-8')\<close>, \<open>None\<close> for \<open>UnicodeDecodeError\<close>;
  \<^item> \<open>py_repr\<close>: \<open>str\<close> of a list or a dictionary;
  \<^item> \<open>exn_str\<close>: \<open>str\<close> of an exception;
  \<^item> \<open>url_quote\<close>: \<open>urllib.parse.quote\<close>;
  \<^item> \<open>timestamp\<close>: \<open>datetime.datetime.now().strftime("%Y%m%d_%H%M%S")\<close>;
  \<^item> \<open>tmp_stem\<close>: the directory and random name that \<open>tempfile\<close> picks;
  \<^item> \<open>docx_text\<close>, \<open>docx_render\<close>: python-docx reading the paragraphs of a file and
    building a document from a text;
  \<^item> \<open>csv_rows\<close>, \<open>excel_sheets\<close>: pandas reading a file.
\<close>

record pyenv =
  json_loads :: "pystr \<Rightarrow> loads_error + pyval"
  json_dumps :: "pyval \<Rightarrow> pystr"
  utf8_decode :: "string \<Rightarrow> pystr option"
  py_repr :: "pyval \<Rightarrow> pystr"
  exn_str :: "exn \<Rightarrow> pystr"
  url_quote :: "pystr \<Rightarrow> pystr"
  timestamp :: pystr
  tmp_stem :: pystr
  docx_text :: "pystr \<Rightarrow> exn + pystr"
  docx_render :: "pystr \<Rightarrow> pystr"
  csv_rows :: "pystr \<Rightarrow> exn + pyval"
  excel_sheets :: "pystr \<Rightarrow> exn + pyval"

text \<open>\<open>str(v)\<close>, which is also what an f-string field \<open>{v}\<close> inserts.\<close>

fun py_str :: "pyenv \<Rightarrow> pyval \<Rightarrow> pystr" where
  "py_str E PNone = ascii ''None''"
| "py_str E (PBool b) = ascii (if b then ''True'' else ''False'')"
| "py_str E (PInt i) = str_int i"
| "py_str E (PFloat r) = ascii r"
| "py_str E (PStr s) = s"
| "py_str E v = py_repr E v"


section \<open>The file system and \<open>os.path\<close>\<close>

text \<open>
  The state that the pipeline reads and changes: the files (a file is held as the text
  that reading it gives), the directories, the responses that the remote workflow
  service will give to the next requests, in order, and the requests sent so far.
  Paths are compared as they are written.
\<close>

record response =
  status_code :: int
  resp_text :: pystr
  iter_lines :: "string list"

record request =
  url :: pystr
  payload :: pyval
  req_headers :: "(pystr \<times> pystr) list"

record world =
  files :: "pystr \<rightharpoonup> pystr"
  dirs :: "pystr set"
  pending :: "response list"
  sent :: "request list"

definition os_path_exists :: "world \<Rightarrow> pystr \<Rightarrow> bool" where
  "os_path_exists w p \<longleftrightarrow> p \<in> dom (files w) \<or> p \<in> dirs w"

text \<open>\<open>p.rfind('/') + 1\<close>: where the last component of a POSIX path starts.\<close>

definition sep_index :: "pystr \<Rightarrow> nat" where
  "sep_index p = length p - length (takeWhile (\<lambda>c. c \<noteq> 47) (rev p))"

definition rstrip_slash :: "pystr \<Rightarrow> pystr" where
  "rstrip_slash p = rev (dropWhile (\<lambda>c. c = 47) (rev p))"

definition os_path_dirname :: "pystr \<Rightarrow> pystr" where
  "os_path_dirname p =
     (let head = take (sep_index p) p
      in if head \<noteq> [] \<and> head \<noteq> replicate (length head) 47 then rstrip_slash head else head)"

definition os_path_basename :: "pystr \<Rightarrow> pystr" where
  "os_path_basename p = drop (sep_index p) p"

text \<open>
  \<open>os.path.splitext\<close>: the extension starts at the last dot of the last component,
  unless only dots come before it there.
\<close>

definition os_path_splitext :: "pystr \<Rightarrow> pystr \<times> pystr" where
  "os_path_splitext p =
     (let base = drop (sep_index p) p
      in if 46 \<in> set base then
           (let k = length base - Suc (length (takeWhile (\<lambda>c. c \<noteq> 46) (rev base)));
                d = sep_index p + k
            in if list_ex (\<lambda>c. c \<noteq> 46) (take k base) then (take d p, drop d p) else (p, []))
         else (p, []))"

text \<open>\<open>os.path.join(a, b)\<close> with two arguments.\<close>

definition os_path_join :: "pystr \<Rightarrow> pystr \<Rightarrow> pystr" where
  "os_path_join a b =
     (if prefix [47] b then b
      else if a = [] \<or> suffix [47] a then a @ b
      else a @ [47] @ b)"

text \<open>The directories above a path: what stands before each of its slashes.\<close>

definition ancestors :: "pystr \<Rightarrow> pystr list" where
  "ancestors p = filter (\<lambda>a. a \<noteq> []) (map (\<lambda>k. rstrip_slash (take k p)) (filter (\<lambda>k. p ! k = 47) [0..<length p]))"

text \<open>
  \<open>os.makedirs(name, exist_ok=\<dots>)\<close>: creates the directory and the missing ones above
  it; raises when the path exists (unless it is a directory and \<open>exist_ok\<close> is set) or
  when a file stands in the way.
\<close>

definition os_makedirs :: "pystr \<Rightarrow> bool \<Rightarrow> world \<Rightarrow> (exn + unit) \<times> world" where
  "os_makedirs name exist_ok w =
     (if name \<in> dirs w then (if exist_ok then (Inr (), w) else (Inl (FileExistsError name), w))
      else if name \<in> dom (files w) then (Inl (FileExistsError name), w)
      else if list_ex (\<lambda>a. a \<in> dom (files w)) (ancestors name) then (Inl NotADirectoryError, w)
      else (Inr (), w\<lparr>dirs := dirs w \<union> set (ancestors name) \<union> {name}\<rparr>))"

text \<open>\<open>os.unlink(p)\<close>: removes a file, raises on anything else.\<close>

definition os_unlink :: "pystr \<Rightarrow> world \<Rightarrow> (exn + unit) \<times> world" where
  "os_unlink p w =
     (if p \<in> dom (files w) then (Inr (), w\<lparr>files := (files w)(p := None)\<rparr>)
      else if p \<in> dirs w then (Inl IsADirectoryError, w)
      else (Inl (FileNotFoundError p), w))"

section \<open>Document handler (utils/document\_handler.py)\<close>

text \<open>
  The extension test that \<open>read\<close> and \<open>write\<close> both start with when \<open>file_type\<close> is
  \<open>None\<close>, as it is in the one call of each that the pipeline makes.
\<close>

definition detect_file_type :: "pystr \<Rightarrow> exn + pystr" where
  "detect_file_type filepath =
     (if suffix (ascii ''.md'') filepath \<or> suffix (ascii ''.markdown'') filepath then Inr (ascii ''markdown'')
      else if suffix (ascii ''.docx'') filepath then Inr (ascii ''word'')
      else if suffix (ascii ''.csv'') filepath then Inr (ascii ''csv'')
      else if suffix (ascii ''.xlsx'') filepath \<or> suffix (ascii ''.xls'') filepath then Inr (ascii ''excel'')
      else Inl (ValueError (ascii ''Unable to determine file type from extension. Please specify file_type.'')))"

definition file_not_found :: "pystr \<Rightarrow> exn" where
  "file_not_found filepath = FileNotFoundError (ascii ''File '' @ filepath @ ascii '' does not exist'')"

text \<open>\<open>open(filepath, 'r', encoding='utf-8')\<close> and \<open>f.read()\<close>.\<close>

definition open_read :: "pystr \<Rightarrow> world \<Rightarrow> exn + pystr" where
  "open_read filepath w =
     (case files w filepath of
        Some c \<Rightarrow> Inr c
      | None \<Rightarrow> if filepath \<in> dirs w then Inl IsADirectoryError else Inl (file_not_found filepath))"

definition read_markdown :: "pystr \<Rightarrow> world \<Rightarrow> exn + pystr" where
  "read_markdown filepath w =
     (if \<not> os_path_exists w filepath then Inl (file_not_found filepath)
      else open_read filepath w)"

definition read_word :: "pyenv \<Rightarrow> pystr \<Rightarrow> world \<Rightarrow> exn + pystr" where
  "read_word E filepath w =
     (if \<not> os_path_exists w filepath then Inl (file_not_found filepath)
      else case files w filepath of
             Some c \<Rightarrow> docx_text E c
           | None \<Rightarrow> Inl LibraryError)"

definition read_csv :: "pyenv \<Rightarrow> pystr \<Rightarrow> world \<Rightarrow> exn + pyval" where
  "read_csv E filepath w =
     (if \<not> os_path_exists w filepath then Inl (file_not_found filepath)
      else case files w filepath of
             Some c \<Rightarrow> csv_rows E c
           | None \<Rightarrow> Inl IsADirectoryError)"

definition read_excel :: "pyenv \<Rightarrow> pystr \<Rightarrow> world \<Rightarrow> exn + pyval" where
  "read_excel E filepath w =
     (if \<not> os_path_exists w filepath then Inl (file_not_found filepath)
      else case files w filepath of
             Some c \<Rightarrow> excel_sheets E c
           | None \<Rightarrow> Inl IsADirectoryError)"

text \<open>
  \<open>DocumentHandler.read(filepath)\<close>. The type it detects is one of four lower-case
  words, so \<open>file_type.lower()\<close> leaves it as it is.
\<close>

definition doc_handler_read :: "pyenv \<Rightarrow> pystr \<Rightarrow> world \<Rightarrow> exn + pyval" where
  "doc_handler_read E filepath w =
     (case detect_file_type filepath of
        Inl e \<Rightarrow> Inl e
      | Inr file_type \<Rightarrow>
          if file_type \<in> set [ascii ''md'', ascii ''markdown''] then map_sum id PStr (read_markdown filepath w)
          else if file_type \<in> set [ascii ''docx'', ascii ''word''] then map_sum id PStr (read_word E filepath w)
          else if file_type \<in> set [ascii ''csv''] then read_csv E filepath w
          else if file_type \<in> set [ascii ''excel'', ascii ''xlsx'', ascii ''xls''] then read_excel E filepath w
          else Inl (ValueError (ascii ''Unsupported file type: '' @ file_type)))"

text \<open>
  The start that the four writers share: the directory is made, and a path that exists
  is refused unless \<open>overwrite\<close> is set. \<open>Inl\<close> is the exception that the writer's own
  \<open>except Exception\<close> then turns into the result \<open>False\<close>.
\<close>

definition write_guard :: "pystr \<Rightarrow> bool \<Rightarrow> world \<Rightarrow> (exn + unit) \<times> world" where
  "write_guard filepath overwrite w =
     (let d = os_path_dirname filepath
      in case os_makedirs (if d \<noteq> [] then d else ascii ''.'') True w of
           (Inl e, w') \<Rightarrow> (Inl e, w')
         | (Inr u, w') \<Rightarrow>
             if os_path_exists w' filepath \<and> \<not> overwrite
             then (Inl (FileExistsError (ascii ''File '' @ filepath @ ascii '' already exists and overwrite is set to False'')), w')
             else (Inr (), w'))"

text \<open>
  \<open>open(filepath, 'w', encoding='utf-8')\<close> and \<open>f.write(content)\<close>: fails on a
  directory, on the empty path and on a path that ends in a slash.
\<close>

definition open_write :: "pystr \<Rightarrow> pystr \<Rightarrow> world \<Rightarrow> (exn + unit) \<times> world" where
  "open_write filepath content w =
     (if filepath \<in> dirs w \<or> suffix [47] filepath then (Inl IsADirectoryError, w)
      else if filepath = [] then (Inl (FileNotFoundError filepath), w)
      else (Inr (), w\<lparr>files := (files w)(filepath \<mapsto> content)\<rparr>))"

definition write_markdown :: "pystr \<Rightarrow> pystr \<Rightarrow> bool \<Rightarrow> world \<Rightarrow> bool \<times> world" where
  "write_markdown content filepath overwrite w =
     (case write_guard filepath overwrite w of
        (Inl e, w') \<Rightarrow> (False, w')
      | (Inr u, w') \<Rightarrow>
          (case open_write filepath content w' of
             (Inl e, w'') \<Rightarrow> (False, w'')
           | (Inr u', w'') \<Rightarrow> (True, w'')))"

definition write_word :: "pyenv \<Rightarrow> pystr \<Rightarrow> pystr \<Rightarrow> bool \<Rightarrow> world \<Rightarrow> bool \<times> world" where
  "write_word E content filepath overwrite w =
     (case write_guard filepath overwrite w of
        (Inl e, w') \<Rightarrow> (False, w')
      | (Inr u, w') \<Rightarrow>
          (case open_write filepath (docx_render E content) w' of
             (Inl e, w'') \<Rightarrow> (False, w'')
           | (Inr u', w'') \<Rightarrow> (True, w'')))"

text \<open>
  The pipeline hands the writers a \<open>str\<close>. \<open>pandas.DataFrame(data)\<close> raises
  \<open>ValueError\<close> for a \<open>str\<close>, after the guard and before anything is written.
\<close>

definition write_csv :: "pystr \<Rightarrow> pystr \<Rightarrow> bool \<Rightarrow> world \<Rightarrow> bool \<times> world" where
  "write_csv data filepath overwrite w =
     (case write_guard filepath overwrite w of
        (Inl e, w') \<Rightarrow> (False, w')
      | (Inr u, w') \<Rightarrow> (False, w'))"

definition write_excel :: "pystr \<Rightarrow> pystr \<Rightarrow> bool \<Rightarrow> world \<Rightarrow> bool \<times> world" where
  "write_excel data filepath overwrite w =
     (case write_guard filepath overwrite w of
        (Inl e, w') \<Rightarrow> (False, w')
      | (Inr u, w') \<Rightarrow> (False, w'))"

text \<open>\<open>DocumentHandler.write(content, filepath)\<close> with a \<open>str\<close> content; \<open>overwrite\<close> defaults to \<open>False\<close>.\<close>

definition doc_handler_write :: "pyenv \<Rightarrow> pystr \<Rightarrow> pystr \<Rightarrow> bool \<Rightarrow> world \<Rightarrow> (exn + bool) \<times> world" where
  "doc_handler_write E content filepath overwrite w =
     (case detect_file_type filepath of
        Inl e \<Rightarrow> (Inl e, w)
      | Inr file_type \<Rightarrow>
          if file_type \<in> set [ascii ''md'', ascii ''markdown''] then map_prod Inr id (write_markdown content filepath overwrite w)
          else if file_type \<in> set [ascii ''docx'', ascii ''word''] then map_prod Inr id (write_word E content filepath overwrite w)
          else if file_type \<in> set [ascii ''csv''] then map_prod Inr id (write_csv content filepath overwrite w)
          else if file_type \<in> set [ascii ''excel'', ascii ''xlsx'', ascii ''xls''] then map_prod Inr id (write_excel content filepath overwrite w)
          else (Inl (ValueError (ascii ''Unsupported file type: '' @ file_type)), w))"


section \<open>Workflow client (dify\_wrapper/dify\_client.py)\<close>

record client =
  base_url :: pyval
  api_key :: pyval
  user :: pyval
  headers :: "(pystr \<times> pystr) list"

definition get_headers :: "pyenv \<Rightarrow> pyval \<Rightarrow> (pystr \<times> pystr) list" where
  "get_headers E key =
     [(ascii ''Authorization'', ascii ''Bearer '' @ py_str E key),
      (ascii ''Content-Type'', ascii ''application/json'')]"

text \<open>The loop over \<open>required_fields.items()\<close>: the first value that is not truthy raises.\<close>

fun check_required :: "(pystr \<times> pyval) list \<Rightarrow> exn + unit" where
  "check_required [] = Inr ()"
| "check_required ((field_name, v) # rest) =
     (if \<not> py_truthy v
      then Inl (ValueError (field_name @ ascii '' is required in config but not provided''))
      else check_required rest)"

text \<open>\<open>DifyAPIClient.__init__(config)\<close>\<close>

definition DifyAPIClient :: "pyenv \<Rightarrow> (pystr \<times> pyval) list \<Rightarrow> exn + client" where
  "DifyAPIClient E config =
     (let b = dict_get config (ascii ''base_url'') (PStr []);
          k = dict_get config (ascii ''api_key'') (PStr []);
          u = dict_get config (ascii ''user'') (PStr []);
          required_fields = [(ascii ''base_url'', b), (ascii ''api_key'', k), (ascii ''user'', u)]
      in case check_required required_fields of
           Inl e \<Rightarrow> Inl e
         | Inr x \<Rightarrow> Inr \<lparr>base_url = b, api_key = k, user = u, headers = get_headers E k\<rparr>)"

text \<open>
  \<open>requests.request("POST", url, json=payload, headers=\<dots>)\<close>: the request is sent and
  the service's next response comes back; with no response to give, the call raises.
\<close>

definition requests_post :: "request \<Rightarrow> world \<Rightarrow> (exn + response) \<times> world" where
  "requests_post rq w =
     (case pending w of
        [] \<Rightarrow> (Inl ConnectionError, w\<lparr>sent := sent w @ [rq]\<rparr>)
      | r # rs \<Rightarrow> (Inr r, w\<lparr>pending := rs, sent := sent w @ [rq]\<rparr>))"

text \<open>
  \<open>_workflow_blocking_process\<close>: only \<open>json.JSONDecodeError\<close> is caught and wrapped; any
  other exception of \<open>json.loads\<close> goes through as it is.
\<close>

definition workflow_blocking_process :: "pyenv \<Rightarrow> response \<Rightarrow> exn + pyval" where
  "workflow_blocking_process E r =
     (case json_loads E (resp_text r) of
        Inr response_full \<Rightarrow> Inr response_full
      | Inl (JSONDecodeError e) \<Rightarrow>
          Inl (Exception (ascii ''Failed to parse JSON response: '' @ e
                          @ ascii '' - Response text: '' @ resp_text r))
      | Inl (OtherError x) \<Rightarrow> Inl x)"

text \<open>
  One turn of the loop of \<open>_workflow_streaming_process\<close>, with its two handlers: a
  \<open>JSONDecodeError\<close> yields the object of the first, any other exception of
  \<open>json.loads\<close> the object of the second (\<open>except Exception\<close>). A line that does not
  decode as UTF-8 raises \<open>UnicodeDecodeError\<close> in the \<open>try\<close> block; that is no
  \<open>JSONDecodeError\<close>, so the second handler takes it, and building its error object
  decodes the line again (\<open>'raw_line': line.decode('utf-8')\<close>) and raises once more,
  this time out of the generator.
\<close>

datatype line_outcome = Skip | Yield pystr | Raise exn

definition stream_line :: "pyenv \<Rightarrow> string \<Rightarrow> line_outcome" where
  "stream_line E line =
     (if line = [] then Skip
      else if \<not> prefix ''data: '' line then Skip
      else case utf8_decode E line of
             None \<Rightarrow> Raise UnicodeDecodeError
           | Some t \<Rightarrow>
               (case json_loads E (drop 6 t) of
                  Inr d \<Rightarrow> Yield (json_dumps E d)
                | Inl (JSONDecodeError e) \<Rightarrow>
                    Yield (json_dumps E (PDict [(ascii ''error'', PStr (ascii ''Failed to parse JSON: '' @ e)),
                                                (ascii ''raw_line'', PStr t)]))
                | Inl (OtherError x) \<Rightarrow>
                    Yield (json_dumps E (PDict [(ascii ''error'',
                                                 PStr (ascii ''Unexpected error processing stream: '' @ exn_str E x)),
                                                (ascii ''raw_line'', PStr t)]))))"

text \<open>The generator, as the items it yields and the exception that ends it, if one does.\<close>

fun workflow_streaming_process :: "pyenv \<Rightarrow> string list \<Rightarrow> pystr list \<times> exn option" where
  "workflow_streaming_process E [] = ([], None)"
| "workflow_streaming_process E (line # rest) =
     (case stream_line E line of
        Skip \<Rightarrow> workflow_streaming_process E rest
      | Yield y \<Rightarrow> (case workflow_streaming_process E rest of (ys, e) \<Rightarrow> (y # ys, e))
      | Raise e \<Rightarrow> ([], Some e))"

datatype workflow_result = Blocking pyval | Streaming "pystr list" "exn option"

definition run_workflow :: "pyenv \<Rightarrow> client \<Rightarrow> pyval \<Rightarrow> bool \<Rightarrow> world \<Rightarrow> (exn + workflow_result) \<times> world" where
  "run_workflow E c inputs stream w =
     (let rq = \<lparr>url = py_str E (base_url c) @ ascii ''/v1/workflows/run'',
                payload = PDict [(ascii ''inputs'', inputs),
                                 (ascii ''response_mode'', PStr (ascii (if stream then ''streaming'' else ''blocking''))),
                                 (ascii ''user'', user c)],
                req_headers = headers c\<rparr>
      in case requests_post rq w of
           (Inl e, w') \<Rightarrow> (Inl e, w')
         | (Inr r, w') \<Rightarrow>
             if status_code r = 200 then
               (if stream
                then (case workflow_streaming_process E (iter_lines r) of (ys, e) \<Rightarrow> (Inr (Streaming ys e), w'))
                else (map_sum id Blocking (workflow_blocking_process E r), w'))
             else (Inl (Exception (ascii ''Error: '' @ str_int (status_code r) @ ascii '' - '' @ resp_text r)), w'))"

section \<open>The pipeline (core/duplicate.py)\<close>

text \<open>\<open>len(v)\<close>, \<open>v[j]\<close> with an integer and \<open>v[k]\<close> with a string, on a decoded JSON value.\<close>

fun py_len :: "pyval \<Rightarrow> exn + nat" where
  "py_len (PStr s) = Inr (length s)"
| "py_len (PList xs) = Inr (length xs)"
| "py_len (PDict kvs) = Inr (length kvs)"
| "py_len v = Inl TypeError"

fun getitem_int :: "pyval \<Rightarrow> nat \<Rightarrow> exn + pyval" where
  "getitem_int (PList xs) j = (if j < length xs then Inr (xs ! j) else Inl IndexError)"
| "getitem_int (PStr s) j = (if j < length s then Inr (PStr [s ! j]) else Inl IndexError)"
| "getitem_int (PDict kvs) j = Inl (KeyError (PInt (int j)))"
| "getitem_int v j = Inl TypeError"

fun getitem_str :: "pyval \<Rightarrow> pystr \<Rightarrow> exn + pyval" where
  "getitem_str (PDict kvs) k = (case map_of kvs k of Some v \<Rightarrow> Inr v | None \<Rightarrow> Inl (KeyError (PStr k)))"
| "getitem_str v k = Inl TypeError"

text \<open>
  \<open>record\<close>: a \<open>dict\<close> from sentence to list of (content, score), in insertion order.
  Assigning to a key that is there keeps its place, as \<open>AList.update\<close> does.
\<close>

type_synonym match_record = "(pystr \<times> (pyval \<times> pyval) list) list"

text \<open>\<open>(result[j]["content"], result[j]['metadata']['score'])\<close>\<close>

definition match_pair :: "pyval \<Rightarrow> nat \<Rightarrow> exn + pyval \<times> pyval" where
  "match_pair result j =
     (case getitem_int result j of
        Inl e \<Rightarrow> Inl e
      | Inr item \<Rightarrow>
          (case getitem_str item (ascii ''content'') of
             Inl e \<Rightarrow> Inl e
           | Inr c \<Rightarrow>
               (case getitem_str item (ascii ''metadata'') of
                  Inl e \<Rightarrow> Inl e
                | Inr m \<Rightarrow>
                    (case getitem_str m (ascii ''score'') of
                       Inl e \<Rightarrow> Inl e
                     | Inr sc \<Rightarrow> Inr (c, sc)))))"

text \<open>The inner loop \<open>for j in range(len(result))\<close>, appending to \<open>record[sentence]\<close>.\<close>

fun append_matches :: "pyval \<Rightarrow> pystr \<Rightarrow> nat list \<Rightarrow> match_record \<Rightarrow> exn + match_record" where
  "append_matches result sentence [] record = Inr record"
| "append_matches result sentence (j # js) record =
     (case match_pair result j of
        Inl e \<Rightarrow> Inl e
      | Inr pair \<Rightarrow>
          (case map_of record sentence of
             None \<Rightarrow> Inl (KeyError (PStr sentence))
           | Some found \<Rightarrow> append_matches result sentence js (AList.update sentence (found @ [pair]) record)))"

text \<open>Lines 36 to 44: what one response does to \<open>record\<close>.\<close>

definition record_response :: "pyval \<Rightarrow> pystr \<Rightarrow> match_record \<Rightarrow> exn + match_record" where
  "record_response result sentence record =
     (case result of
        PDict kvs \<Rightarrow>
          (case dict_get kvs (ascii ''data'') PNone of
             PDict dkvs \<Rightarrow>
               (case dict_get dkvs (ascii ''outputs'') (PDict []) of
                  PDict okvs \<Rightarrow>
                    (let res = dict_get okvs (ascii ''result'') PNone
                     in if py_truthy res then
                          (case py_len res of
                             Inl e \<Rightarrow> Inl e
                           | Inr n \<Rightarrow>
                               if n > 0
                               then append_matches res sentence [0..<n] (AList.update sentence [] record)
                               else Inr record)
                        else Inr record)
                | other \<Rightarrow> Inl AttributeError)
           | other \<Rightarrow> Inl AssertionError)
      | other \<Rightarrow> Inl AssertionError)"

text \<open>One turn of the loop over the sentences: a new client, one blocking call, the response recorded.\<close>

definition sentence_step ::
  "pyenv \<Rightarrow> (pystr \<times> pyval) list \<Rightarrow> pystr \<Rightarrow> match_record \<Rightarrow> world \<Rightarrow> (exn + match_record) \<times> world" where
  "sentence_step E config sentence record w =
     (case DifyAPIClient E config of
        Inl e \<Rightarrow> (Inl e, w)
      | Inr c \<Rightarrow>
          (case run_workflow E c (PDict [(ascii ''content'', PStr sentence)]) False w of
             (Inl e, w') \<Rightarrow> (Inl e, w')
           | (Inr (Blocking result), w') \<Rightarrow> (record_response result sentence record, w')
           | (Inr (Streaming ys e), w') \<Rightarrow> (Inl AssertionError, w')))"

fun run_sentences ::
  "pyenv \<Rightarrow> (pystr \<times> pyval) list \<Rightarrow> pystr list \<Rightarrow> match_record \<Rightarrow> world \<Rightarrow> (exn + match_record) \<times> world" where
  "run_sentences E config [] record w = (Inr record, w)"
| "run_sentences E config (sentence # rest) record w =
     (case sentence_step E config sentence record w of
        (Inl e, w') \<Rightarrow> (Inl e, w')
      | (Inr record', w') \<Rightarrow> run_sentences E config rest record' w')"

text \<open>The report. The literals are the code points of the source's Chinese strings.\<close>

definition report_header :: pystr where
  "report_header = ascii ''# '' @ [0x91CD, 0x590D, 0x5185, 0x5BB9, 0x68C0, 0x6D4B, 0x7ED3, 0x679C] @ [10, 10]"

definition original_heading :: pystr where
  "original_heading = ascii ''## '' @ [0x539F, 0x53E5] @ [10, 10]"

definition duplicates_heading :: pystr where
  "duplicates_heading = ascii ''### '' @ [0x91CD, 0x590D, 0x5185, 0x5BB9] @ [10, 10]"

definition duplicate_item :: pystr where
  "duplicate_item = [0x91CD, 0x590D, 0x9879]"

text \<open>\<open>for i, (duplicate_content, score) in enumerate(duplicates)\<close>\<close>

fun render_duplicates :: "pyenv \<Rightarrow> nat \<Rightarrow> (pyval \<times> pyval) list \<Rightarrow> pystr" where
  "render_duplicates E i [] = []"
| "render_duplicates E i ((duplicate_content, score) # rest) =
     ascii ''**'' @ duplicate_item @ ascii '' '' @ str_nat (i + 1) @ ascii ''** (Similarity: '' @ py_str E score @ ascii '')'' @ [10, 10]
     @ py_str E duplicate_content @ [10, 10]
     @ render_duplicates E (i + 1) rest"

fun render_sections :: "pyenv \<Rightarrow> match_record \<Rightarrow> pystr" where
  "render_sections E [] = []"
| "render_sections E ((sentence, duplicates) # rest) =
     original_heading @ sentence @ [10, 10]
     @ duplicates_heading
     @ render_duplicates E 0 duplicates
     @ ascii ''---'' @ [10, 10]
     @ render_sections E rest"

definition render_report :: "pyenv \<Rightarrow> match_record \<Rightarrow> pystr" where
  "render_report E record = report_header @ render_sections E record"

text \<open>The output path when the caller gives none.\<close>

definition default_output_path :: "pyenv \<Rightarrow> pystr \<Rightarrow> pystr" where
  "default_output_path E file_path =
     (let base_name = fst (os_path_splitext (os_path_basename file_path));
          input_dir = os_path_dirname file_path
      in os_path_join input_dir (base_name @ ascii ''_'' @ timestamp E @ ascii ''.md''))"

definition duplicate ::
  "pyenv \<Rightarrow> (pystr \<times> pyval) list \<Rightarrow> pystr \<Rightarrow> pystr option \<Rightarrow> world \<Rightarrow> (exn + unit) \<times> world" where
  "duplicate E config file_path output_path w =
     (case doc_handler_read E file_path w of
        Inl e \<Rightarrow> (Inl e, w)
      | Inr content \<Rightarrow>
          (case run_sentences E config (split_sentences (py_str E content)) [] w of
             (Inl e, w1) \<Rightarrow> (Inl e, w1)
           | (Inr record, w1) \<Rightarrow>
               (let markdown_content = render_report E record;
                    out = (case output_path of None \<Rightarrow> default_output_path E file_path | Some p \<Rightarrow> p);
                    output_dir = os_path_dirname out
                in case (if output_dir \<noteq> [] \<and> \<not> os_path_exists w1 output_dir
                         then os_makedirs output_dir False w1 else (Inr (), w1)) of
                     (Inl e, w2) \<Rightarrow> (Inl e, w2)
                   | (Inr u, w2) \<Rightarrow>
                       (case doc_handler_write E markdown_content out False w2 of
                          (Inl e, w3) \<Rightarrow> (Inl e, w3)
                        | (Inr ok, w3) \<Rightarrow> (Inr (), w3)))))"


section \<open>Service and HTTP endpoints (services/duplicate\_service.py, api/api.py)\<close>

text \<open>
  Both service methods run \<open>duplicate\<close> once on the two paths; the second one does it on a
  worker thread and waits for it, which gives the same result and the same exception.
\<close>

definition process_file_sync ::
  "pyenv \<Rightarrow> (pystr \<times> pyval) list \<Rightarrow> pystr \<Rightarrow> pystr option \<Rightarrow> world \<Rightarrow> (exn + unit) \<times> world" where
  "process_file_sync E config file_path output_path w = duplicate E config file_path output_path w"

definition process_file_async ::
  "pyenv \<Rightarrow> (pystr \<times> pyval) list \<Rightarrow> pystr \<Rightarrow> pystr option \<Rightarrow> world \<Rightarrow> (exn + unit) \<times> world" where
  "process_file_async E config file_path output_path w = duplicate E config file_path output_path w"

record upload_file =
  filename :: "pystr option"
  file_data :: pystr

text \<open>What an endpoint answers: the response model, or \<open>HTTPException(status_code, detail)\<close>.\<close>

datatype http_result =
    DuplicateCheckResponse pystr pystr pystr
  | HTTPException int pystr

text \<open>
  The two processing endpoints, each written out from its own source text: the upload
  is saved under a temporary name, the output path is taken or derived, the service
  runs, and the \<open>except\<close> and \<open>finally\<close> blocks clean up. Every \<open>os.unlink\<close> there
  stands in a \<open>try\<close> whose bare \<open>except\<close> passes.
\<close>

definition check_duplicate_content_sync ::
  "pyenv \<Rightarrow> (pystr \<times> pyval) list \<Rightarrow> upload_file \<Rightarrow> pystr option \<Rightarrow> world \<Rightarrow> http_result \<times> world" where
  "check_duplicate_content_sync E config file output_path w =
     (let file_extension = (case filename file of
                              None \<Rightarrow> []
                            | Some fn \<Rightarrow> if fn \<noteq> [] then snd (os_path_splitext fn) else []);
          tmp_file_path = tmp_stem E @ file_extension;
          w0 = w\<lparr>files := (files w)(tmp_file_path \<mapsto> file_data file)\<rparr>;
          result_output_path =
            (case output_path of
               None \<Rightarrow>
                 (let base_name = fst (os_path_splitext (os_path_basename tmp_file_path));
                      tmp_dir = os_path_dirname tmp_file_path
                  in os_path_join tmp_dir (base_name @ ascii ''_'' @ timestamp E @ ascii ''.md''))
             | Some p \<Rightarrow> p)
      in case process_file_sync E config tmp_file_path (Some result_output_path) w0 of
           (Inr u, w1) \<Rightarrow>
             (let encoded_path = url_quote E result_output_path;
                  download_url = ascii ''/api/v1/download-result/'' @ encoded_path
              in (DuplicateCheckResponse (ascii ''Duplicate content check completed successfully'')
                    result_output_path download_url,
                  snd (os_unlink tmp_file_path w1)))
         | (Inl e, w1) \<Rightarrow>
             (let w2 = (case os_unlink tmp_file_path w1 of
                          (Inl e', w') \<Rightarrow> w'
                        | (Inr u, w') \<Rightarrow>
                            if (case output_path of None \<Rightarrow> False | Some p \<Rightarrow> p \<noteq> [])
                               \<and> os_path_exists w' result_output_path
                            then snd (os_unlink result_output_path w')
                            else w')
              in (HTTPException 500 (ascii ''Error processing file: '' @ exn_str E e),
                  snd (os_unlink tmp_file_path w2))))"

definition check_duplicate_content_async ::
  "pyenv \<Rightarrow> (pystr \<times> pyval) list \<Rightarrow> upload_file \<Rightarrow> pystr option \<Rightarrow> world \<Rightarrow> http_result \<times> world" where
  "check_duplicate_content_async E config file output_path w =
     (let file_extension = (case filename file of
                              None \<Rightarrow> []
                            | Some fn \<Rightarrow> if fn \<noteq> [] then snd (os_path_splitext fn) else []);
          tmp_file_path = tmp_stem E @ file_extension;
          w0 = w\<lparr>files := (files w)(tmp_file_path \<mapsto> file_data file)\<rparr>;
          result_output_path =
            (case output_path of
               None \<Rightarrow>
                 (let base_name = fst (os_path_splitext (os_path_basename tmp_file_path));
                      tmp_dir = os_path_dirname tmp_file_path
                  in os_path_join tmp_dir (base_name @ ascii ''_'' @ timestamp E @ ascii ''.md''))
             | Some p \<Rightarrow> p)
      in case process_file_async E config tmp_file_path (Some result_output_path) w0 of
           (Inr u, w1) \<Rightarrow>
             (let encoded_path = url_quote E result_output_path;
                  download_url = ascii ''/api/v1/download-result/'' @ encoded_path
              in (DuplicateCheckResponse (ascii ''Duplicate content check completed successfully'')
                    result_output_path download_url,
                  snd (os_unlink tmp_file_path w1)))
         | (Inl e, w1) \<Rightarrow>
             (let w2 = (case os_unlink tmp_file_path w1 of
                          (Inl e', w') \<Rightarrow> w'
                        | (Inr u, w') \<Rightarrow>
                            if (case output_path of None \<Rightarrow> False | Some p \<Rightarrow> p \<noteq> [])
                               \<and> os_path_exists w' result_output_path
                            then snd (os_unlink result_output_path w')
                            else w')
              in (HTTPException 500 (ascii ''Error processing file: '' @ exn_str E e),
                  snd (os_unlink tmp_file_path w2))))"


section \<open>An example environment\<close>

text \<open>
  A small runtime for evaluating the model on concrete inputs: a JSON decoder and
  encoder that know a handful of texts, an ASCII decoder, and fixed choices for the
  time stamp and the temporary name.
\<close>

definition example_match :: pyval where
  "example_match = PDict [(ascii ''content'', PStr (ascii ''X'')),
                          (ascii ''metadata'', PDict [(ascii ''score'', PFloat ''0.9'')])]"

definition example_match_ids :: pyval where
  "example_match_ids = PDict [(ascii ''title'', PStr (ascii ''doc'')),
                              (ascii ''content'', PStr (ascii ''X'')),
                              (ascii ''metadata'', PDict [(ascii ''position'', PInt 1),
                                                          (ascii ''score'', PFloat ''0.9'')])]"

definition example_loads :: "pystr \<Rightarrow> loads_error + pyval" where
  "example_loads t =
     (if t = ascii ''one match'' then
        Inr (PDict [(ascii ''data'', PDict [(ascii ''outputs'', PDict [(ascii ''result'', PList [example_match])])])])
      else if t = ascii ''no match'' then
        Inr (PDict [(ascii ''data'', PDict [(ascii ''outputs'', PDict [(ascii ''result'', PList [])])])])
      else if t = ascii ''no outputs'' then Inr (PDict [(ascii ''data'', PDict [])])
      else if t = ascii ''no data'' then Inr (PDict [])
      else if t = ascii ''[]'' then Inr (PList [])
      else if t = ascii ''one match with ids'' then
        Inr (PDict [(ascii ''task_id'', PStr (ascii ''t1'')),
                    (ascii ''data'', PDict [(ascii ''id'', PStr (ascii ''w1'')),
                                            (ascii ''outputs'', PDict [(ascii ''result'', PList [example_match_ids])])])])
      else if t = ascii ''1'' then Inr (PInt 1)
      else if t = ascii ''too deep'' then Inl (OtherError RecursionError)
      else Inl (JSONDecodeError (ascii ''Expecting value: line 1 column 1 (char 0)'')))"

definition example_dumps :: "pyval \<Rightarrow> pystr" where
  "example_dumps v =
     (case v of
        PInt i \<Rightarrow> str_int i
      | PList [] \<Rightarrow> ascii ''[]''
      | other \<Rightarrow> ascii ''{}'')"

definition example_env :: pyenv where
  "example_env =
     \<lparr>json_loads = example_loads,
      json_dumps = example_dumps,
      utf8_decode = (\<lambda>b. if list_all (\<lambda>c. (of_char c :: nat) < 128) b then Some (map of_char b) else None),
      py_repr = (\<lambda>v. ascii ''[]''),
      exn_str = (\<lambda>e. ascii ''error''),
      url_quote = (\<lambda>p. p),
      timestamp = ascii ''20240101_120000'',
      tmp_stem = ascii ''/tmp/tmpab12cd'',
      docx_text = (\<lambda>c. Inl LibraryError),
      docx_render = (\<lambda>c. c),
      csv_rows = (\<lambda>c. Inl LibraryError),
      excel_sheets = (\<lambda>c. Inl LibraryError)\<rparr>"

definition example_config :: "(pystr \<times> pyval) list" where
  "example_config = [(ascii ''base_url'', PStr (ascii ''https://api.dify.ai'')),
                     (ascii ''api_key'', PStr (ascii ''app-key'')),
                     (ascii ''user'', PStr (ascii ''tester''))]"

definition example_client :: client where
  "example_client = \<lparr>base_url = PStr (ascii ''https://api.dify.ai''), api_key = PStr (ascii ''app-key''),
     user = PStr (ascii ''tester''), headers = get_headers example_env (PStr (ascii ''app-key''))\<rparr>"

text \<open>
  A world with an input file, two files that are already there, and the responses the
  service is going to give.
\<close>

definition example_world :: "pystr \<Rightarrow> response list \<Rightarrow> world" where
  "example_world content rs =
     \<lparr>files = [ascii ''/data/in.md'' \<mapsto> content, ascii ''/data/old.md'' \<mapsto> ascii ''old'',
               ascii ''/data/old.txt'' \<mapsto> ascii ''old''],
      dirs = {ascii ''/data'', ascii ''/tmp''}, pending = rs, sent = []\<rparr>"

definition ok_response :: "pystr \<Rightarrow> response" where
  "ok_response t = \<lparr>status_code = 200, resp_text = t, iter_lines = []\<rparr>"

text \<open>An upload, and a response that reports a server error.\<close>

definition example_upload :: upload_file where
  "example_upload = \<lparr>filename = Some (ascii ''notes.md''), file_data = ascii ''A''\<rparr>"

definition error_response :: response where
  "error_response = \<lparr>status_code = 500, resp_text = ascii ''boom'', iter_lines = []\<rparr>"

section \<open>Properties of the sentence splitter\<close>

lemma re_split_no_delim: "\<not> list_ex is_delim f \<Longrightarrow> re_split f = [f]"
  by (induction f) auto

lemma re_split_at_delim:
  "\<not> list_ex is_delim f \<Longrightarrow> is_delim d \<Longrightarrow> re_split (f @ d # rest) = f # re_split rest"
  by (induction f) auto

lemma concat_strip_filter:
  "concat (map (\<lambda>s. if py_strip s \<noteq> [] then [py_strip s] else []) xs) = filter (\<lambda>s. s \<noteq> []) (map py_strip xs)"
  by (induction xs) auto

lemma split_sentences_filter:
  "split_sentences t = filter (\<lambda>s. s \<noteq> []) (map py_strip (re_split t))"
  unfolding split_sentences_def by (rule concat_strip_filter)

lemma py_strip_parts:
  "\<exists>a b. s = a @ py_strip s @ b \<and> list_all py_isspace a \<and> list_all py_isspace b"
proof -
  let ?m = "dropWhile py_isspace s"
  let ?a = "takeWhile py_isspace s"
  let ?b = "rev (takeWhile py_isspace (rev ?m))"
  have m: "?m = py_strip s @ ?b"
    unfolding py_strip_def by (metis rev_append rev_rev_ident takeWhile_dropWhile_id)
  have "s = ?a @ ?m" by simp
  with m have "s = ?a @ py_strip s @ ?b" by simp
  moreover have "list_all py_isspace ?a" by (simp add: list_all_iff) (meson set_takeWhileD)
  moreover have "list_all py_isspace ?b" by (simp add: list_all_iff) (meson set_takeWhileD)
  ultimately show ?thesis by blast
qed

lemma py_strip_ends:
  assumes "py_strip s \<noteq> []"
  shows "\<not> py_isspace (hd (py_strip s)) \<and> \<not> py_isspace (last (py_strip s))"
proof -
  let ?m = "dropWhile py_isspace s"
  let ?d = "dropWhile py_isspace (rev ?m)"
  from assms have d: "?d \<noteq> []" by (simp add: py_strip_def)
  have m: "?m \<noteq> []"
  proof
    assume "?m = []"
    with d show False by simp
  qed
  have l: "last (py_strip s) = hd ?d" using d by (simp add: py_strip_def last_rev)
  have "\<not> py_isspace (hd ?d)" using d hd_dropWhile by blast
  moreover have "hd (py_strip s) = last ?d" using d by (simp add: py_strip_def hd_rev)
  moreover have "last ?d = last (rev ?m)" using d by (metis last_appendR takeWhile_dropWhile_id)
  moreover have "last (rev ?m) = hd ?m" using m by (simp add: last_rev)
  moreover have "\<not> py_isspace (hd ?m)" using m hd_dropWhile by blast
  ultimately show ?thesis using l by simp
qed

text \<open>
  Claim C6. The splitter cuts the text at the two delimiters U+FF0C and U+3002, trims each
  piece and drops the empty ones. The two examples of the specification hold: the
  text A, comma, B, full stop, C gives the three sentences A, B, C, and two blanks, a
  comma and two blanks give no sentence. In general the sentences are the non-empty
  trimmed pieces of \<open>re_split\<close>; a text without delimiter is one piece and a
  delimiter ends the piece before it; trimming removes whitespace at both ends and
  nothing else, and leaves no whitespace at either end.
\<close>

theorem split_sentences_spec:
  "split_sentences (ascii ''A'' @ [0xFF0C] @ ascii ''B'' @ [0x3002] @ ascii ''C'') = [ascii ''A'', ascii ''B'', ascii ''C'']
   \<and> split_sentences (ascii ''  '' @ [0xFF0C] @ ascii ''  '') = []
   \<and> split_sentences t = filter (\<lambda>s. s \<noteq> []) (map py_strip (re_split t))
   \<and> (\<not> list_ex is_delim f \<longrightarrow> re_split f = [f] \<and> (is_delim d \<longrightarrow> re_split (f @ d # rest) = f # re_split rest))
   \<and> (\<exists>a b. s = a @ py_strip s @ b \<and> list_all py_isspace a \<and> list_all py_isspace b)
   \<and> (py_strip s \<noteq> [] \<longrightarrow> \<not> py_isspace (hd (py_strip s)) \<and> \<not> py_isspace (last (py_strip s)))"
proof -
  have "split_sentences (ascii ''A'' @ [0xFF0C] @ ascii ''B'' @ [0x3002] @ ascii ''C'') = [ascii ''A'', ascii ''B'', ascii ''C'']"
    by (simp add: split_sentences_def is_delim_def py_strip_def py_isspace_def ascii_def)
  moreover have "split_sentences (ascii ''  '' @ [0xFF0C] @ ascii ''  '') = []"
    by (simp add: split_sentences_def is_delim_def py_strip_def py_isspace_def ascii_def)
  ultimately show ?thesis
    using split_sentences_filter re_split_no_delim re_split_at_delim py_strip_parts py_strip_ends
    by blast
qed

theorem split_sentences_spec_witness:
  "\<not> list_ex is_delim (ascii ''A'') \<and> is_delim 0x3002
   \<and> re_split (ascii ''A'' @ 0x3002 # ascii ''B'') = ascii ''A'' # re_split (ascii ''B'')
   \<and> py_strip (ascii '' A '') \<noteq> []
   \<and> \<not> py_isspace (hd (py_strip (ascii '' A '')))
   \<and> split_sentences (ascii '' A '' @ 0x3002 # ascii ''B '') = [ascii ''A'', ascii ''B'']"
  using split_sentences_spec [of "ascii '' A '' @ 0x3002 # ascii ''B ''" "ascii ''A''" "0x3002" "ascii ''B''" "ascii '' A ''"]
  by (simp add: is_delim_def py_strip_def py_isspace_def ascii_def)


section \<open>Properties of the workflow client\<close>

text \<open>
  Claim C8. When the value of \<open>base_url\<close>, \<open>api_key\<close> or \<open>user\<close> in the configuration is
  missing or empty (not truthy: a key that is absent, an empty string, \<open>None\<close>),
  constructing the client raises a \<open>ValueError\<close> whose message starts with the name of
  such a field; when all three values are truthy, as non-empty strings are, the
  construction succeeds and gives the client with its request headers.
\<close>

theorem DifyAPIClient_validation:
  "((\<exists>f \<in> set [''base_url'', ''api_key'', ''user'']. \<not> py_truthy (dict_get config (ascii f) (PStr []))) \<longrightarrow>
      (\<exists>f \<in> set [''base_url'', ''api_key'', ''user''].
          \<not> py_truthy (dict_get config (ascii f) (PStr []))
          \<and> DifyAPIClient E config = Inl (ValueError (ascii f @ ascii '' is required in config but not provided''))))
   \<and> ((\<forall>f \<in> set [''base_url'', ''api_key'', ''user'']. py_truthy (dict_get config (ascii f) (PStr []))) \<longrightarrow>
        DifyAPIClient E config =
          Inr \<lparr>base_url = dict_get config (ascii ''base_url'') (PStr []),
               api_key = dict_get config (ascii ''api_key'') (PStr []),
               user = dict_get config (ascii ''user'') (PStr []),
               headers = get_headers E (dict_get config (ascii ''api_key'') (PStr []))\<rparr>)
   \<and> (map_of config k = None \<longrightarrow> \<not> py_truthy (dict_get config k (PStr [])))
   \<and> (map_of config k = Some (PStr s) \<longrightarrow> py_truthy (dict_get config k (PStr [])) = (s \<noteq> []))
   \<and> (map_of config k = Some PNone \<longrightarrow> \<not> py_truthy (dict_get config k (PStr [])))"
proof -
  let ?fs = "[(ascii ''base_url'', dict_get config (ascii ''base_url'') (PStr [])),
              (ascii ''api_key'', dict_get config (ascii ''api_key'') (PStr [])),
              (ascii ''user'', dict_get config (ascii ''user'') (PStr []))]"
  have a: "(\<exists>f \<in> set [''base_url'', ''api_key'', ''user'']. \<not> py_truthy (dict_get config (ascii f) (PStr []))) \<longrightarrow>
      (\<exists>f \<in> set [''base_url'', ''api_key'', ''user''].
          \<not> py_truthy (dict_get config (ascii f) (PStr []))
          \<and> DifyAPIClient E config = Inl (ValueError (ascii f @ ascii '' is required in config but not provided'')))"
    by (auto simp: DifyAPIClient_def Let_def)
  have b: "(\<forall>f \<in> set [''base_url'', ''api_key'', ''user'']. py_truthy (dict_get config (ascii f) (PStr []))) \<longrightarrow>
        DifyAPIClient E config =
          Inr \<lparr>base_url = dict_get config (ascii ''base_url'') (PStr []),
               api_key = dict_get config (ascii ''api_key'') (PStr []),
               user = dict_get config (ascii ''user'') (PStr []),
               headers = get_headers E (dict_get config (ascii ''api_key'') (PStr []))\<rparr>"
    by (simp add: DifyAPIClient_def Let_def)
  have c: "(map_of config k = None \<longrightarrow> \<not> py_truthy (dict_get config k (PStr [])))
   \<and> (map_of config k = Some (PStr s) \<longrightarrow> py_truthy (dict_get config k (PStr [])) = (s \<noteq> []))
   \<and> (map_of config k = Some PNone \<longrightarrow> \<not> py_truthy (dict_get config k (PStr [])))"
    by (simp add: dict_get_def)
  from a b c show ?thesis by blast
qed

theorem DifyAPIClient_validation_witness:
  "\<not> py_truthy (dict_get [(ascii ''base_url'', PStr (ascii ''u'')), (ascii ''api_key'', PNone), (ascii ''user'', PStr (ascii ''me''))] (ascii ''api_key'') (PStr []))
   \<and> DifyAPIClient example_env [(ascii ''base_url'', PStr (ascii ''u'')), (ascii ''api_key'', PNone), (ascii ''user'', PStr (ascii ''me''))]
       = Inl (ValueError (ascii ''api_key is required in config but not provided''))
   \<and> py_truthy (dict_get example_config (ascii ''base_url'') (PStr []))
   \<and> py_truthy (dict_get example_config (ascii ''api_key'') (PStr []))
   \<and> py_truthy (dict_get example_config (ascii ''user'') (PStr []))
   \<and> (\<exists>c. DifyAPIClient example_env example_config = Inr c)
   \<and> map_of example_config (ascii ''user'') = Some (PStr (ascii ''tester''))"
  using DifyAPIClient_validation [of "[(ascii ''base_url'', PStr (ascii ''u'')), (ascii ''api_key'', PNone), (ascii ''user'', PStr (ascii ''me''))]" example_env "ascii ''user''" "ascii ''me''"]
        DifyAPIClient_validation [of example_config example_env "ascii ''user''" "ascii ''tester''"]
  by (simp add: dict_get_def ascii_def example_config_def)

text \<open>
  Claim C9. When the workflow call gets a response whose status is not 200,
  \<open>run_workflow\<close> raises an exception whose message is \<open>Error: \<close>, the status code in
  decimal, \<open> - \<close> and the body text. For a status of 200 the status test raises nothing:
  the outcome is the one of the streaming or of the blocking stage, and a body that
  decodes is returned. Either way one request has been sent and one response used up:
  nothing is tried again.
\<close>

theorem run_workflow_status:
  assumes "pending w = r # rs"
  shows "(status_code r \<noteq> 200 \<longrightarrow>
            fst (run_workflow E c inputs stream w) =
              Inl (Exception (ascii ''Error: '' @ str_int (status_code r) @ ascii '' - '' @ resp_text r)))
       \<and> (status_code r = 200 \<longrightarrow>
            fst (run_workflow E c inputs stream w) =
              (if stream
               then Inr (Streaming (fst (workflow_streaming_process E (iter_lines r)))
                                   (snd (workflow_streaming_process E (iter_lines r))))
               else map_sum id Blocking (workflow_blocking_process E r)))
       \<and> (status_code r = 200 \<and> json_loads E (resp_text r) = Inr v \<longrightarrow>
            fst (run_workflow E c inputs False w) = Inr (Blocking v))
       \<and> pending (snd (run_workflow E c inputs stream w)) = rs
       \<and> length (sent (snd (run_workflow E c inputs stream w))) = length (sent w) + 1
       \<and> files (snd (run_workflow E c inputs stream w)) = files w
       \<and> dirs (snd (run_workflow E c inputs stream w)) = dirs w"
  using assms
  by (simp add: run_workflow_def requests_post_def Let_def workflow_blocking_process_def split: prod.splits)

theorem run_workflow_status_witness:
  "fst (run_workflow example_env example_client (PDict [(ascii ''content'', PStr (ascii ''A''))]) False
         \<lparr>files = Map.empty, dirs = {}, pending = [\<lparr>status_code = 500, resp_text = ascii ''boom'', iter_lines = []\<rparr>], sent = []\<rparr>)
     = Inl (Exception (ascii ''Error: 500 - boom''))
   \<and> fst (run_workflow example_env example_client (PDict [(ascii ''content'', PStr (ascii ''A''))]) False
         \<lparr>files = Map.empty, dirs = {}, pending = [\<lparr>status_code = 200, resp_text = ascii ''1'', iter_lines = []\<rparr>], sent = []\<rparr>)
     = Inr (Blocking (PInt 1))"
  using run_workflow_status [of "\<lparr>files = Map.empty, dirs = {}, pending = [\<lparr>status_code = 500, resp_text = ascii ''boom'', iter_lines = []\<rparr>], sent = []\<rparr>"
           "\<lparr>status_code = 500, resp_text = ascii ''boom'', iter_lines = []\<rparr>" "[]"
           example_env example_client "PDict [(ascii ''content'', PStr (ascii ''A''))]" False "PInt 1"]
        run_workflow_status [of "\<lparr>files = Map.empty, dirs = {}, pending = [\<lparr>status_code = 200, resp_text = ascii ''1'', iter_lines = []\<rparr>], sent = []\<rparr>"
           "\<lparr>status_code = 200, resp_text = ascii ''1'', iter_lines = []\<rparr>" "[]"
           example_env example_client "PDict [(ascii ''content'', PStr (ascii ''A''))]" False "PInt 1"]
  by (simp add: example_env_def example_loads_def ascii_def str_int_def str_nat.simps workflow_blocking_process_def)

text \<open>
  One line of the event stream, when it decodes as UTF-8: an empty line and a line that
  does not start with \<open>data: \<close> yield nothing; a line with the prefix yields the parsed
  object (as \<open>json.dumps\<close> writes it) when it holds valid JSON, the error object with the
  parse error and the whole raw line when it holds malformed JSON, and the object of
  the second handler when \<open>json.loads\<close> fails otherwise. After a line that was skipped
  or that yielded an item the generator goes on with the rest.
\<close>

lemma stream_line_decoded:
  "stream_line E [] = Skip
   \<and> (\<not> prefix ''data: '' line \<longrightarrow> stream_line E line = Skip)
   \<and> (prefix ''data: '' line \<and> utf8_decode E line = Some t \<longrightarrow>
         (json_loads E (drop 6 t) = Inr d \<longrightarrow> stream_line E line = Yield (json_dumps E d))
       \<and> (json_loads E (drop 6 t) = Inl (JSONDecodeError e) \<longrightarrow>
             stream_line E line =
               Yield (json_dumps E (PDict [(ascii ''error'', PStr (ascii ''Failed to parse JSON: '' @ e)),
                                           (ascii ''raw_line'', PStr t)])))
       \<and> (json_loads E (drop 6 t) = Inl (OtherError x) \<longrightarrow>
             stream_line E line =
               Yield (json_dumps E (PDict [(ascii ''error'',
                                            PStr (ascii ''Unexpected error processing stream: '' @ exn_str E x)),
                                           (ascii ''raw_line'', PStr t)]))))
   \<and> (stream_line E line = Skip \<longrightarrow>
         workflow_streaming_process E (line # rest) = workflow_streaming_process E rest)
   \<and> (stream_line E line = Yield y \<longrightarrow>
         workflow_streaming_process E (line # rest) =
           (y # fst (workflow_streaming_process E rest), snd (workflow_streaming_process E rest)))"
  by (auto simp: stream_line_def split: prod.splits)

lemma example_stream:
  "workflow_streaming_process example_env ['''', ''event: ping'', ''data: oops'', ''data: too deep'', ''data: 1'']
     = ([example_dumps (PDict [(ascii ''error'', PStr (ascii ''Failed to parse JSON: Expecting value: line 1 column 1 (char 0)'')),
                               (ascii ''raw_line'', PStr (ascii ''data: oops''))]),
         example_dumps (PDict [(ascii ''error'', PStr (ascii ''Unexpected error processing stream: error'')),
                               (ascii ''raw_line'', PStr (ascii ''data: too deep''))]),
         ascii ''1''], None)"
  by (simp add: example_env_def example_loads_def example_dumps_def ascii_def str_int_def str_nat.simps stream_line_def)

text \<open>
  Claim C10 says that every line of the stream is skipped, yields its parsed object or
  yields an error object, and that no line ends the stream. For a line with the
  prefix \<open>data: \<close> that is not valid UTF-8 the code does not: the line raises
  \<open>UnicodeDecodeError\<close>, the handler that is to yield the error object raises it again,
  and the generator ends there with that exception: nothing is yielded for the line,
  and the lines after it are never looked at.
\<close>

theorem undecodable_line_ends_stream:
  assumes "prefix ''data: '' line" "utf8_decode E line = None"
  shows "stream_line E line = Raise UnicodeDecodeError
       \<and> workflow_streaming_process E (line # rest) = ([], Some UnicodeDecodeError)"
  using assms by (auto simp: stream_line_def)

theorem undecodable_line_ends_stream_witness:
  "prefix ''data: '' (''data: '' @ [CHR 0xFF])
   \<and> utf8_decode example_env (''data: '' @ [CHR 0xFF]) = None
   \<and> workflow_streaming_process example_env [''data: '' @ [CHR 0xFF], ''data: 1'']
       = ([], Some UnicodeDecodeError)
   \<and> workflow_streaming_process example_env [''data: 1''] = ([ascii ''1''], None)"
proof -
  have p: "prefix ''data: '' (''data: '' @ [CHR 0xFF])" by simp
  have u: "utf8_decode example_env (''data: '' @ [CHR 0xFF]) = None"
    by (simp add: example_env_def)
  have ok: "workflow_streaming_process example_env [''data: 1''] = ([ascii ''1''], None)"
    by (simp add: example_env_def example_loads_def example_dumps_def ascii_def str_int_def str_nat.simps stream_line_def)
  from undecodable_line_ends_stream [OF p u, of "[''data: 1'']"] p u ok show ?thesis by simp
qed

section \<open>What the pipeline does to the files\<close>

text \<open>Requests change neither files nor directories; the guard of a writer changes no file.\<close>

lemma run_workflow_fs:
  "files (snd (run_workflow E c i st w)) = files w \<and> dirs (snd (run_workflow E c i st w)) = dirs w"
proof (cases "pending w")
  case Nil
  then show ?thesis by (simp add: run_workflow_def requests_post_def Let_def)
next
  case (Cons r rs)
  then show ?thesis
    by (simp add: run_workflow_def requests_post_def Let_def split: prod.splits)
qed

lemma sentence_step_fs:
  "files (snd (sentence_step E config s acc w)) = files w
   \<and> dirs (snd (sentence_step E config s acc w)) = dirs w"
proof (cases "DifyAPIClient E config")
  case (Inl e)
  then show ?thesis by (simp add: sentence_step_def)
next
  case (Inr c)
  show ?thesis
  proof (cases "run_workflow E c (PDict [(ascii ''content'', PStr s)]) False w")
    case (Pair res w')
    with run_workflow_fs [of E c "PDict [(ascii ''content'', PStr s)]" False w]
    have "files w' = files w" "dirs w' = dirs w" by simp_all
    with Pair Inr show ?thesis
      by (simp add: sentence_step_def split: sum.splits workflow_result.splits)
  qed
qed

lemma run_sentences_fs:
  "files (snd (run_sentences E config ss acc w)) = files w
   \<and> dirs (snd (run_sentences E config ss acc w)) = dirs w"
proof (induction ss arbitrary: acc w)
  case Nil
  then show ?case by simp
next
  case (Cons s ss)
  show ?case
  proof (cases "sentence_step E config s acc w")
    case (Pair res w')
    with sentence_step_fs [of E config s acc w]
    have fs: "files w' = files w" "dirs w' = dirs w" by simp_all
    show ?thesis
    proof (cases res)
      case (Inl e)
      with Pair fs show ?thesis by simp
    next
      case (Inr acc')
      with Pair fs Cons.IH [of acc' w'] show ?thesis by simp
    qed
  qed
qed

lemma os_makedirs_files: "files (snd (os_makedirs d x w)) = files w"
  by (simp add: os_makedirs_def)

lemma write_guard_files: "files (snd (write_guard p ov w)) = files w"
proof (cases "os_makedirs (if os_path_dirname p \<noteq> [] then os_path_dirname p else ascii ''.'') True w")
  case (Pair res w')
  with os_makedirs_files [of "if os_path_dirname p \<noteq> [] then os_path_dirname p else ascii ''.''" True w]
  have "files w' = files w" by simp
  with Pair show ?thesis
    by (simp add: write_guard_def Let_def split: sum.splits)
qed



section \<open>Steps of the pipeline\<close>

text \<open>One sentence whose call is answered with status 200 and a body that decodes.\<close>

lemma sentence_step_response:
  assumes "DifyAPIClient E config = Inr c" "pending w = r # rs" "status_code r = 200"
    and "json_loads E (resp_text r) = Inr v"
  shows "fst (sentence_step E config s acc w) = record_response v s acc
         \<and> pending (snd (sentence_step E config s acc w)) = rs
         \<and> length (sent (snd (sentence_step E config s acc w))) = Suc (length (sent w))"
  using assms
  by (simp add: sentence_step_def run_workflow_def requests_post_def Let_def workflow_blocking_process_def)

lemma doc_handler_write_fresh_md:
  assumes "suffix (ascii ''.md'') out" "\<not> os_path_exists w out" "os_path_dirname out \<in> dirs w"
    and "os_path_dirname out \<noteq> []" "\<not> suffix [47] out"
  shows "doc_handler_write E content out False w = (Inr True, w\<lparr>files := (files w)(out \<mapsto> content)\<rparr>)"
proof -
  from assms(1) have ne: "out \<noteq> []" by (auto simp: ascii_def suffix_def)
  from assms(1) have dt: "detect_file_type out = Inr (ascii ''markdown'')"
    by (simp add: detect_file_type_def)
  have mk: "os_makedirs (os_path_dirname out) True w = (Inr (), w)"
    using assms(3) by (simp add: os_makedirs_def)
  have g: "write_guard out False w = (Inr (), w)"
    using assms(2,4) mk by (simp add: write_guard_def Let_def)
  have ow: "open_write out content w = (Inr (), w\<lparr>files := (files w)(out \<mapsto> content)\<rparr>)"
    using assms(2,5) ne by (simp add: open_write_def os_path_exists_def)
  have "write_markdown content out False w = (True, w\<lparr>files := (files w)(out \<mapsto> content)\<rparr>)"
    using g ow by (simp add: write_markdown_def)
  with dt show ?thesis by (simp add: doc_handler_write_def ascii_def)
qed



text \<open>
  The loop over a list of sentences in two parts, and the one place where
  \<open>duplicate\<close> writes: a run that ends in an exception has written no file.
\<close>

lemma run_sentences_append:
  "run_sentences E config (xs @ ys) acc w =
     (case run_sentences E config xs acc w of
        (Inl e, w') \<Rightarrow> (Inl e, w')
      | (Inr acc', w') \<Rightarrow> run_sentences E config ys acc' w')"
  by (induction xs arbitrary: acc w) (auto split: prod.splits sum.splits)

lemma doc_handler_write_Inl:
  "doc_handler_write E c p ov w = (Inl e, w') \<Longrightarrow> w' = w"
  by (auto simp: doc_handler_write_def map_prod_def split: sum.splits if_splits prod.splits)

lemma duplicate_failure_files:
  assumes "fst (duplicate E config fp output_path w) = Inl e"
  shows "files (snd (duplicate E config fp output_path w)) = files w"
proof (cases "doc_handler_read E fp w")
  case (Inl e')
  then show ?thesis by (simp add: duplicate_def)
next
  case (Inr content)
  show ?thesis
  proof (cases "run_sentences E config (split_sentences (py_str E content)) [] w")
    case (Pair res w1)
    with run_sentences_fs [of E config "split_sentences (py_str E content)" "[]" w]
    have fs: "files w1 = files w" by simp
    show ?thesis
    proof (cases res)
      case (Inl e')
      with Inr Pair fs show ?thesis by (simp add: duplicate_def)
    next
      case (Inr acc)
      note racc = this
      let ?out = "case output_path of None \<Rightarrow> default_output_path E fp | Some p \<Rightarrow> p"
      let ?mk = "if os_path_dirname ?out \<noteq> [] \<and> \<not> os_path_exists w1 (os_path_dirname ?out)
                 then os_makedirs (os_path_dirname ?out) False w1 else (Inr (), w1)"
      have mkf: "files (snd ?mk) = files w1" by (simp add: os_makedirs_files)
      show ?thesis
      proof (cases ?mk)
        case (Pair mres w2)
        with mkf have f2: "files w2 = files w1" by simp
        show ?thesis
        proof (cases mres)
          case (Inl e')
          with \<open>doc_handler_read E fp w = Inr content\<close> \<open>run_sentences E config (split_sentences (py_str E content)) [] w = (res, w1)\<close>
            racc Pair f2 fs show ?thesis by (simp add: duplicate_def Let_def)
        next
          case (Inr u)
          show ?thesis
          proof (cases "doc_handler_write E (render_report E acc) ?out False w2")
            case (Pair wres w3)
            note wp = this
            show ?thesis
            proof (cases wres)
              case (Inl e')
              then have "w3 = w2" using wp doc_handler_write_Inl by blast
              with \<open>doc_handler_read E fp w = Inr content\<close> \<open>run_sentences E config (split_sentences (py_str E content)) [] w = (res, w1)\<close>
                racc \<open>?mk = (mres, w2)\<close> Inr Inl wp f2 fs show ?thesis by (simp add: duplicate_def Let_def)
            next
              case (Inr ok)
              with \<open>doc_handler_read E fp w = Inr content\<close> \<open>run_sentences E config (split_sentences (py_str E content)) [] w = (res, w1)\<close>
                racc \<open>?mk = (mres, w2)\<close> \<open>mres = Inr u\<close> wp assms show ?thesis by (simp add: duplicate_def Let_def)
            qed
          qed
        qed
      qed
    qed
  qed
qed



text \<open>
  After the loop: with the directory of the output path in place, what is left of
  \<open>duplicate\<close> is the call of the writer; a new markdown path gets the report.
\<close>

lemma duplicate_tail:
  assumes "doc_handler_read E fp w = Inr content"
    and "run_sentences E config (split_sentences (py_str E content)) [] w = (Inr acc, w1)"
    and "out = (case output_path of None \<Rightarrow> default_output_path E fp | Some p \<Rightarrow> p)"
    and "os_path_dirname out = [] \<or> os_path_exists w (os_path_dirname out)"
  shows "duplicate E config fp output_path w =
           (case doc_handler_write E (render_report E acc) out False w1 of
              (Inl e, w3) \<Rightarrow> (Inl e, w3)
            | (Inr ok, w3) \<Rightarrow> (Inr (), w3))"
proof -
  from run_sentences_fs [of E config "split_sentences (py_str E content)" "[]" w] assms(2)
  have fs: "files w1 = files w" "dirs w1 = dirs w" by simp_all
  then have "os_path_dirname out = [] \<or> os_path_exists w1 (os_path_dirname out)"
    using assms(4) by (simp add: os_path_exists_def)
  then show ?thesis
    using assms(1,2,3) by (auto simp: duplicate_def Let_def)
qed

lemma duplicate_writes_report:
  assumes "doc_handler_read E fp w = Inr content"
    and "run_sentences E config (split_sentences (py_str E content)) [] w = (Inr acc, w1)"
    and "suffix (ascii ''.md'') out" "\<not> os_path_exists w out" "os_path_dirname out \<in> dirs w"
    and "os_path_dirname out \<noteq> []" "\<not> suffix [47] out"
  shows "duplicate E config fp (Some out) w = (Inr (), w1\<lparr>files := (files w1)(out \<mapsto> render_report E acc)\<rparr>)"
proof -
  from run_sentences_fs [of E config "split_sentences (py_str E content)" "[]" w] assms(2)
  have fs: "files w1 = files w" "dirs w1 = dirs w" by simp_all
  then have ex: "\<not> os_path_exists w1 out" "os_path_dirname out \<in> dirs w1"
    using assms(4,5) by (simp_all add: os_path_exists_def)
  have wr: "doc_handler_write E (render_report E acc) out False w1
              = (Inr True, w1\<lparr>files := (files w1)(out \<mapsto> render_report E acc)\<rparr>)"
    using doc_handler_write_fresh_md [OF assms(3) ex(1) ex(2) assms(6) assms(7)] .
  have dirx: "os_path_dirname out = [] \<or> os_path_exists w (os_path_dirname out)"
    using assms(5) by (simp add: os_path_exists_def)
  show ?thesis
    using duplicate_tail [OF assms(1) assms(2) _ dirx, of "Some out"] wr by simp
qed

text \<open>What one decoded response does to the record, by its shape.\<close>

lemma record_response_not_dict:
  "(\<forall>kvs. v = PDict kvs \<longrightarrow> \<not> is_dict (dict_get kvs (ascii ''data'') PNone))
     \<Longrightarrow> record_response v s acc = Inl AssertionError"
  by (cases v) (auto simp: record_response_def split: pyval.splits)

lemma record_response_lenient:
  assumes "dict_get kvs (ascii ''data'') PNone = PDict dkvs"
    and "map_of dkvs (ascii ''outputs'') = None
         \<or> (\<exists>okvs. map_of dkvs (ascii ''outputs'') = Some (PDict okvs) \<and> map_of okvs (ascii ''result'') = None)"
  shows "record_response (PDict kvs) s acc = Inr acc"
  using assms by (auto simp: record_response_def dict_get_def)

lemma record_response_empty_list:
  assumes "dict_get kvs (ascii ''data'') PNone = PDict dkvs"
    and "dict_get dkvs (ascii ''outputs'') (PDict []) = PDict okvs"
    and "dict_get okvs (ascii ''result'') PNone = PList []"
  shows "record_response (PDict kvs) s acc = Inr acc"
  using assms by (simp add: record_response_def)



text \<open>Facts about the example world, for evaluating runs on it.\<close>

lemma run_sentences_single:
  "run_sentences E config [s] acc w = sentence_step E config s acc w"
  by (simp split: prod.splits sum.splits)

lemma example_read:
  "doc_handler_read E (ascii ''/data/in.md'') (example_world content rs) = Inr (PStr content)"
proof -
  have "detect_file_type (ascii ''/data/in.md'') = Inr (ascii ''markdown'')"
    by (simp add: detect_file_type_def ascii_def suffix_def)
  moreover have "read_markdown (ascii ''/data/in.md'') (example_world content rs) = Inr content"
    by (simp add: read_markdown_def open_read_def os_path_exists_def example_world_def ascii_def)
  ultimately show ?thesis by (simp add: doc_handler_read_def ascii_def)
qed

lemma example_split: "split_sentences (ascii ''A'') = [ascii ''A'']"
  by (simp add: split_sentences_def is_delim_def py_strip_def py_isspace_def ascii_def)

lemma example_client_ok: "DifyAPIClient example_env example_config = Inr example_client"
  by (simp add: DifyAPIClient_def example_config_def example_client_def dict_get_def ascii_def Let_def)

lemma example_out:
  "suffix (ascii ''.md'') (ascii ''/data/out.md'')"
  "os_path_dirname (ascii ''/data/out.md'') = ascii ''/data''"
  "\<not> suffix [47] (ascii ''/data/out.md'')"
  "\<not> os_path_exists (example_world content rs) (ascii ''/data/out.md'')"
  "ascii ''/data'' \<in> dirs (example_world content rs)"
  "ascii ''/data'' \<noteq> []"
  by (simp_all add: ascii_def suffix_def os_path_dirname_def sep_index_def rstrip_slash_def Let_def
        os_path_exists_def example_world_def)



section \<open>Responses of an unexpected shape\<close>

lemma run_sentences_Cons_Inl:
  "fst (sentence_step E config s acc w) = Inl e \<Longrightarrow>
     run_sentences E config (s # rest) acc w = (Inl e, snd (sentence_step E config s acc w))"
  by (cases "sentence_step E config s acc w") auto

lemma example_loads_no_outputs:
  "json_loads example_env (resp_text (ok_response (ascii ''no outputs''))) = Inr (PDict [(ascii ''data'', PDict [])])"
  by (simp add: example_env_def example_loads_def ok_response_def ascii_def)

text \<open>
  A response whose \<open>data\<close> has no \<open>outputs\<close> raises nothing: the run on the example
  world ends normally and writes the report, which is the header alone.
\<close>

theorem missing_outputs_counterexample:
  "json_loads example_env (resp_text (ok_response (ascii ''no outputs''))) = Inr (PDict [(ascii ''data'', PDict [])])
   \<and> fst (duplicate example_env example_config (ascii ''/data/in.md'') (Some (ascii ''/data/out.md''))
            (example_world (ascii ''A'') [ok_response (ascii ''no outputs'')])) = Inr ()
   \<and> files (snd (duplicate example_env example_config (ascii ''/data/in.md'') (Some (ascii ''/data/out.md''))
            (example_world (ascii ''A'') [ok_response (ascii ''no outputs'')]))) (ascii ''/data/out.md'')
       = Some report_header"
proof -
  let ?w = "example_world (ascii ''A'') [ok_response (ascii ''no outputs'')]"
  let ?st = "sentence_step example_env example_config (ascii ''A'') [] ?w"
  have p: "pending ?w = ok_response (ascii ''no outputs'') # []" by (simp add: example_world_def)
  have st: "status_code (ok_response (ascii ''no outputs'')) = 200" by (simp add: ok_response_def)
  have rr: "record_response (PDict [(ascii ''data'', PDict [])]) (ascii ''A'') [] = Inr []"
    using record_response_lenient [of "[(ascii ''data'', PDict [])]" "[]" "ascii ''A''" "[]"]
    by (simp add: dict_get_def)
  from sentence_step_response [OF example_client_ok p st example_loads_no_outputs, of "ascii ''A''" "[]"] rr
  have "fst ?st = Inr []" by simp
  then have run: "run_sentences example_env example_config (split_sentences (py_str example_env (PStr (ascii ''A'')))) [] ?w
                    = (Inr [], snd ?st)"
    by (simp add: example_split run_sentences_single del: run_sentences.simps) (metis prod.collapse)
  have d: "os_path_dirname (ascii ''/data/out.md'') \<in> dirs ?w" "os_path_dirname (ascii ''/data/out.md'') \<noteq> []"
    using example_out(5) [of "ascii ''A''" "[ok_response (ascii ''no outputs'')]"] example_out(6)
    by (simp_all add: example_out(2))
  from duplicate_writes_report [OF example_read run example_out(1) example_out(4) d example_out(3)]
  have "duplicate example_env example_config (ascii ''/data/in.md'') (Some (ascii ''/data/out.md'')) ?w
          = (Inr (), (snd ?st)\<lparr>files := (files (snd ?st))(ascii ''/data/out.md'' \<mapsto> render_report example_env [])\<rparr>)" .
  then show ?thesis using example_loads_no_outputs by (simp add: render_report_def)
qed

text \<open>
  Claim C1, as the code has it. The response to a sentence that decodes to something
  that is not a dictionary, or whose \<open>data\<close> is missing or is not a dictionary, raises
  \<open>AssertionError\<close>; the whole run ends with it, no file has been written, and the
  responses for the sentences that follow are never asked for. A response whose
  \<open>data\<close> has no \<open>outputs\<close>, or whose \<open>outputs\<close> dictionary has no \<open>result\<close>, raises
  nothing: the sentence adds no entry and the run goes on.
\<close>

theorem response_shape_errors:
  assumes "doc_handler_read E fp w = Inr content"
    and "split_sentences (py_str E content) = pre @ s # post"
    and "run_sentences E config pre [] w = (Inr acc, w1)"
    and "DifyAPIClient E config = Inr c" "pending w1 = r # rs" "status_code r = 200"
    and "json_loads E (resp_text r) = Inr v"
  shows "((\<forall>kvs. v = PDict kvs \<longrightarrow> \<not> is_dict (dict_get kvs (ascii ''data'') PNone)) \<longrightarrow>
            fst (duplicate E config fp output_path w) = Inl AssertionError
            \<and> files (snd (duplicate E config fp output_path w)) = files w
            \<and> pending (snd (duplicate E config fp output_path w)) = rs)
       \<and> ((\<exists>kvs dkvs. v = PDict kvs \<and> dict_get kvs (ascii ''data'') PNone = PDict dkvs
              \<and> (map_of dkvs (ascii ''outputs'') = None
                  \<or> (\<exists>okvs. map_of dkvs (ascii ''outputs'') = Some (PDict okvs)
                              \<and> map_of okvs (ascii ''result'') = None))) \<longrightarrow>
            fst (sentence_step E config s acc w1) = Inr acc
            \<and> pending (snd (sentence_step E config s acc w1)) = rs)"
proof -
  let ?st = "sentence_step E config s acc w1"
  note resp = sentence_step_response [OF assms(4) assms(5) assms(6) assms(7), of s acc]
  have a: "fst (duplicate E config fp output_path w) = Inl AssertionError
            \<and> files (snd (duplicate E config fp output_path w)) = files w
            \<and> pending (snd (duplicate E config fp output_path w)) = rs"
    if h: "\<forall>kvs. v = PDict kvs \<longrightarrow> \<not> is_dict (dict_get kvs (ascii ''data'') PNone)"
  proof -
    from record_response_not_dict [OF h] resp have f: "fst ?st = Inl AssertionError" by simp
    then have "run_sentences E config (s # post) acc w1 = (Inl AssertionError, snd ?st)"
      by (rule run_sentences_Cons_Inl)
    then have "run_sentences E config (pre @ s # post) [] w = (Inl AssertionError, snd ?st)"
      using assms(3) by (simp add: run_sentences_append del: run_sentences.simps)
    then have d: "duplicate E config fp output_path w = (Inl AssertionError, snd ?st)"
      using assms(1,2) by (simp add: duplicate_def)
    then have "fst (duplicate E config fp output_path w) = Inl AssertionError" by simp
    from this duplicate_failure_files [OF this] d resp show ?thesis by simp
  qed
  have b: "fst ?st = Inr acc \<and> pending (snd ?st) = rs"
    if h: "\<exists>kvs dkvs. v = PDict kvs \<and> dict_get kvs (ascii ''data'') PNone = PDict dkvs
              \<and> (map_of dkvs (ascii ''outputs'') = None
                  \<or> (\<exists>okvs. map_of dkvs (ascii ''outputs'') = Some (PDict okvs)
                              \<and> map_of okvs (ascii ''result'') = None))"
  proof -
    from h obtain kvs dkvs where v: "v = PDict kvs" and dd: "dict_get kvs (ascii ''data'') PNone = PDict dkvs"
      and o: "map_of dkvs (ascii ''outputs'') = None
                  \<or> (\<exists>okvs. map_of dkvs (ascii ''outputs'') = Some (PDict okvs)
                              \<and> map_of okvs (ascii ''result'') = None)" by blast
    from record_response_lenient [OF dd o, of s acc] v resp show ?thesis by simp
  qed
  from a b show ?thesis by blast
qed

theorem response_shape_errors_witness:
  "fst (duplicate example_env example_config (ascii ''/data/in.md'') (Some (ascii ''/data/out.md''))
          (example_world (ascii ''A'') [ok_response (ascii ''[]'')])) = Inl AssertionError
   \<and> files (snd (duplicate example_env example_config (ascii ''/data/in.md'') (Some (ascii ''/data/out.md''))
          (example_world (ascii ''A'') [ok_response (ascii ''[]'')])))
       = files (example_world (ascii ''A'') [ok_response (ascii ''[]'')])
   \<and> fst (sentence_step example_env example_config (ascii ''A'') []
          (example_world (ascii ''A'') [ok_response (ascii ''no outputs'')])) = Inr []"
proof -
  let ?w = "example_world (ascii ''A'') [ok_response (ascii ''[]'')]"
  let ?w' = "example_world (ascii ''A'') [ok_response (ascii ''no outputs'')]"
  have sp: "split_sentences (py_str example_env (PStr (ascii ''A''))) = [] @ ascii ''A'' # []"
    by (simp add: example_split)
  have rn: "run_sentences example_env example_config [] [] ?w = (Inr [], ?w)"
    and rn': "run_sentences example_env example_config [] [] ?w' = (Inr [], ?w')" by simp_all
  have p: "pending ?w = ok_response (ascii ''[]'') # []"
    and p': "pending ?w' = ok_response (ascii ''no outputs'') # []" by (simp_all add: example_world_def)
  have st: "status_code (ok_response (ascii ''[]'')) = 200"
    and st': "status_code (ok_response (ascii ''no outputs'')) = 200" by (simp_all add: ok_response_def)
  have ld: "json_loads example_env (resp_text (ok_response (ascii ''[]''))) = Inr (PList [])"
    by (simp add: example_env_def example_loads_def ok_response_def ascii_def)
  from response_shape_errors [OF example_read sp rn example_client_ok p st ld, of "Some (ascii ''/data/out.md'')"]
  have a: "fst (duplicate example_env example_config (ascii ''/data/in.md'') (Some (ascii ''/data/out.md'')) ?w) = Inl AssertionError
     \<and> files (snd (duplicate example_env example_config (ascii ''/data/in.md'') (Some (ascii ''/data/out.md'')) ?w)) = files ?w"
    by simp
  from response_shape_errors [OF example_read sp rn' example_client_ok p' st' example_loads_no_outputs, of "Some (ascii ''/data/out.md'')"]
  have "fst (sentence_step example_env example_config (ascii ''A'') [] ?w') = Inr []"
    by (simp add: dict_get_def)
  with a show ?thesis by simp
qed



section \<open>Reading the input\<close>

lemma detect_txt:
  "detect_file_type (ascii ''/tmp/notes.txt'')
     = Inl (ValueError (ascii ''Unable to determine file type from extension. Please specify file_type.''))"
  by (simp add: detect_file_type_def ascii_def suffix_def)

text \<open>
  Claim C5 says that the reader step loads the raw text of every plain-text document.
  For a plain-text file named \<open>notes.txt\<close> the code does not: the extension test of
  \<open>read\<close> raises \<open>ValueError\<close> before the file is opened, whatever the file holds,
  and \<open>duplicate\<close> ends with that exception, the world unchanged.
\<close>

theorem read_txt_raises:
  "doc_handler_read E (ascii ''/tmp/notes.txt'') w
     = Inl (ValueError (ascii ''Unable to determine file type from extension. Please specify file_type.''))
   \<and> duplicate E config (ascii ''/tmp/notes.txt'') output_path w
     = (Inl (ValueError (ascii ''Unable to determine file type from extension. Please specify file_type.'')), w)"
  by (simp add: doc_handler_read_def duplicate_def detect_txt)

section \<open>Responses without matches\<close>

lemma run_sentences_all_empty:
  assumes "DifyAPIClient E config = Inr c"
  shows "length rs = length ss \<Longrightarrow> pending w = rs @ later \<Longrightarrow>
     (\<forall>r \<in> set rs. status_code r = 200 \<and>
        (\<exists>kvs dkvs okvs. json_loads E (resp_text r) = Inr (PDict kvs)
            \<and> dict_get kvs (ascii ''data'') PNone = PDict dkvs
            \<and> dict_get dkvs (ascii ''outputs'') (PDict []) = PDict okvs
            \<and> dict_get okvs (ascii ''result'') PNone = PList [])) \<Longrightarrow>
     fst (run_sentences E config ss acc w) = Inr acc
     \<and> pending (snd (run_sentences E config ss acc w)) = later"
proof (induction ss arbitrary: rs w)
  case Nil
  then show ?case by simp
next
  case (Cons s ss)
  from Cons.prems(1) obtain r rs' where rs: "rs = r # rs'" and len: "length rs' = length ss"
    by (cases rs) auto
  from Cons.prems(3) rs obtain kvs dkvs okvs where st: "status_code r = 200"
    and ld: "json_loads E (resp_text r) = Inr (PDict kvs)"
    and d: "dict_get kvs (ascii ''data'') PNone = PDict dkvs"
    and ou: "dict_get dkvs (ascii ''outputs'') (PDict []) = PDict okvs"
    and re: "dict_get okvs (ascii ''result'') PNone = PList []" by auto
  let ?st = "sentence_step E config s acc w"
  have p: "pending w = r # (rs' @ later)" using Cons.prems(2) rs by simp
  from sentence_step_response [OF assms p st ld, of s acc] record_response_empty_list [OF d ou re, of s acc]
  have f: "fst ?st = Inr acc" and pn: "pending (snd ?st) = rs' @ later" by simp_all
  have all: "\<forall>r \<in> set rs'. status_code r = 200 \<and>
        (\<exists>kvs dkvs okvs. json_loads E (resp_text r) = Inr (PDict kvs)
            \<and> dict_get kvs (ascii ''data'') PNone = PDict dkvs
            \<and> dict_get dkvs (ascii ''outputs'') (PDict []) = PDict okvs
            \<and> dict_get okvs (ascii ''result'') PNone = PList [])"
    using Cons.prems(3) rs by simp
  have "run_sentences E config (s # ss) acc w = run_sentences E config ss acc (snd ?st)"
    using f by (cases ?st) auto
  with Cons.IH [OF len pn all] show ?case by simp
qed

text \<open>
  Claim C7. A response whose \<open>result\<close> list is empty adds no entry to the record of
  matches. The report of an empty record is the header line, the two characters
  \<open># \<close>, the eight of the Chinese title and two newlines, and nothing else. When every
  sentence gets such a response, the loop ends with the empty record, and a run that
  writes to a new markdown path leaves exactly the header there.
\<close>

theorem empty_result_no_entry:
  "(dict_get kvs (ascii ''data'') PNone = PDict dkvs
      \<and> dict_get dkvs (ascii ''outputs'') (PDict []) = PDict okvs
      \<and> dict_get okvs (ascii ''result'') PNone = PList []
      \<longrightarrow> record_response (PDict kvs) s acc = Inr acc)
   \<and> render_report E [] = ascii ''# '' @ [0x91CD, 0x590D, 0x5185, 0x5BB9, 0x68C0, 0x6D4B, 0x7ED3, 0x679C, 10, 10]
   \<and> (DifyAPIClient E config = Inr c \<and> length rs = length ss \<and> pending w = rs @ later
       \<and> (\<forall>r \<in> set rs. status_code r = 200 \<and>
             (\<exists>kvs dkvs okvs. json_loads E (resp_text r) = Inr (PDict kvs)
                 \<and> dict_get kvs (ascii ''data'') PNone = PDict dkvs
                 \<and> dict_get dkvs (ascii ''outputs'') (PDict []) = PDict okvs
                 \<and> dict_get okvs (ascii ''result'') PNone = PList []))
       \<longrightarrow> fst (run_sentences E config ss [] w) = Inr []
           \<and> (doc_handler_read E fp w = Inr content \<and> split_sentences (py_str E content) = ss
                \<and> suffix (ascii ''.md'') out \<and> \<not> os_path_exists w out \<and> os_path_dirname out \<in> dirs w
                \<and> os_path_dirname out \<noteq> [] \<and> \<not> suffix [47] out
               \<longrightarrow> fst (duplicate E config fp (Some out) w) = Inr ()
                   \<and> files (snd (duplicate E config fp (Some out) w)) out
                       = Some (ascii ''# '' @ [0x91CD, 0x590D, 0x5185, 0x5BB9, 0x68C0, 0x6D4B, 0x7ED3, 0x679C, 10, 10])))"
proof -
  have h: "render_report E [] = ascii ''# '' @ [0x91CD, 0x590D, 0x5185, 0x5BB9, 0x68C0, 0x6D4B, 0x7ED3, 0x679C, 10, 10]"
    by (simp add: render_report_def report_header_def)
  have loop: "fst (run_sentences E config ss [] w) = Inr []"
    if "DifyAPIClient E config = Inr c" "length rs = length ss" "pending w = rs @ later"
      "\<forall>r \<in> set rs. status_code r = 200 \<and>
             (\<exists>kvs dkvs okvs. json_loads E (resp_text r) = Inr (PDict kvs)
                 \<and> dict_get kvs (ascii ''data'') PNone = PDict dkvs
                 \<and> dict_get dkvs (ascii ''outputs'') (PDict []) = PDict okvs
                 \<and> dict_get okvs (ascii ''result'') PNone = PList [])"
    using run_sentences_all_empty [OF that, of "[]"] by simp
  have whole: "fst (duplicate E config fp (Some out) w) = Inr ()
       \<and> files (snd (duplicate E config fp (Some out) w)) out
            = Some (ascii ''# '' @ [0x91CD, 0x590D, 0x5185, 0x5BB9, 0x68C0, 0x6D4B, 0x7ED3, 0x679C, 10, 10])"
    if l: "fst (run_sentences E config ss [] w) = Inr []"
      and r: "doc_handler_read E fp w = Inr content" and sp: "split_sentences (py_str E content) = ss"
      and o: "suffix (ascii ''.md'') out" "\<not> os_path_exists w out" "os_path_dirname out \<in> dirs w"
        "os_path_dirname out \<noteq> []" "\<not> suffix [47] out"
  proof -
    from l sp have run: "run_sentences E config (split_sentences (py_str E content)) [] w
                           = (Inr [], snd (run_sentences E config ss [] w))"
      by (metis prod.collapse)
    from duplicate_writes_report [OF r run o] h show ?thesis by simp
  qed
  show ?thesis
    using record_response_empty_list [of kvs dkvs okvs s acc] h loop whole
    by blast
qed

theorem empty_result_no_entry_witness:
  "record_response (PDict [(ascii ''data'', PDict [(ascii ''outputs'', PDict [(ascii ''result'', PList [])])])])
       (ascii ''A'') [] = Inr []
   \<and> fst (run_sentences example_env example_config [ascii ''A''] []
            (example_world (ascii ''A'') [ok_response (ascii ''no match'')])) = Inr []
   \<and> fst (duplicate example_env example_config (ascii ''/data/in.md'') (Some (ascii ''/data/out.md''))
            (example_world (ascii ''A'') [ok_response (ascii ''no match'')])) = Inr ()
   \<and> files (snd (duplicate example_env example_config (ascii ''/data/in.md'') (Some (ascii ''/data/out.md''))
            (example_world (ascii ''A'') [ok_response (ascii ''no match'')]))) (ascii ''/data/out.md'')
       = Some (ascii ''# '' @ [0x91CD, 0x590D, 0x5185, 0x5BB9, 0x68C0, 0x6D4B, 0x7ED3, 0x679C, 10, 10])"
proof -
  let ?w = "example_world (ascii ''A'') [ok_response (ascii ''no match'')]"
  let ?kvs = "[(ascii ''data'', PDict [(ascii ''outputs'', PDict [(ascii ''result'', PList [])])])]"
  have d: "dict_get ?kvs (ascii ''data'') PNone = PDict [(ascii ''outputs'', PDict [(ascii ''result'', PList [])])]"
    and o: "dict_get [(ascii ''outputs'', PDict [(ascii ''result'', PList [])])] (ascii ''outputs'') (PDict [])
              = PDict [(ascii ''result'', PList [])]"
    and r: "dict_get [(ascii ''result'', PList [])] (ascii ''result'') PNone = PList []"
    by (simp_all add: dict_get_def)
  have p: "pending ?w = [ok_response (ascii ''no match'')] @ []" by (simp add: example_world_def)
  have ld: "json_loads example_env (resp_text (ok_response (ascii ''no match''))) = Inr (PDict ?kvs)"
    by (simp add: example_env_def example_loads_def ok_response_def ascii_def)
  have st: "status_code (ok_response (ascii ''no match'')) = 200" by (simp add: ok_response_def)
  have sp: "split_sentences (py_str example_env (PStr (ascii ''A''))) = [ascii ''A'']"
    by (simp add: example_split)
  have dir: "os_path_dirname (ascii ''/data/out.md'') \<in> dirs ?w" "os_path_dirname (ascii ''/data/out.md'') \<noteq> []"
    using example_out(5) [of "ascii ''A''" "[ok_response (ascii ''no match'')]"] example_out(6)
    by (simp_all add: example_out(2))
  show ?thesis
    using empty_result_no_entry [of ?kvs "[(ascii ''outputs'', PDict [(ascii ''result'', PList [])])]"
        "[(ascii ''result'', PList [])]" "ascii ''A''" "[]" example_env example_config example_client
        "[ok_response (ascii ''no match'')]" "[ascii ''A'']" ?w "[]" "ascii ''/data/in.md''" "PStr (ascii ''A'')"
        "ascii ''/data/out.md''"]
      d o r p ld st sp dir example_client_ok example_read [of example_env "ascii ''A''" "[ok_response (ascii ''no match'')]"]
      example_out(1) example_out(3) example_out(4) [of "ascii ''A''" "[ok_response (ascii ''no match'')]"]
    by simp
qed



section \<open>A response with one match\<close>

lemma one_match_record:
  "record_response
     (PDict [(ascii ''data'', PDict [(ascii ''outputs'', PDict [(ascii ''result'',
        PList [PDict [(ascii ''content'', x), (ascii ''metadata'', PDict [(ascii ''score'', sc)])]])])])])
     s [] = Inr [(s, [(x, sc)])]"
proof -
  let ?m = "PDict [(ascii ''content'', x), (ascii ''metadata'', PDict [(ascii ''score'', sc)])]"
  have mp: "match_pair (PList [?m]) 0 = Inr (x, sc)"
    by (simp add: match_pair_def ascii_def)
  have "append_matches (PList [?m]) s [0] (AList.update s [] []) = Inr [(s, [(x, sc)])]"
    using mp by simp
  moreover have "[0..<1] = [0::nat]" by simp
  ultimately show ?thesis
    by (simp add: record_response_def dict_get_def del: append_matches.simps upt_Suc)
qed

lemma one_match_report:
  "render_report E [(s, [(PStr x, PFloat ''0.9'')])]
     = ascii ''# '' @ [0x91CD, 0x590D, 0x5185, 0x5BB9, 0x68C0, 0x6D4B, 0x7ED3, 0x679C, 10, 10]
       @ ascii ''## '' @ [0x539F, 0x53E5, 10, 10] @ s @ [10, 10]
       @ ascii ''### '' @ [0x91CD, 0x590D, 0x5185, 0x5BB9, 10, 10]
       @ ascii ''**'' @ [0x91CD, 0x590D, 0x9879] @ ascii '' 1** (Similarity: 0.9)'' @ [10, 10]
       @ x @ [10, 10] @ ascii ''---'' @ [10, 10]"
  by (simp add: render_report_def report_header_def original_heading_def duplicates_heading_def
        duplicate_item_def ascii_def str_nat.simps)

lemma plain_item_absent:
  "\<not> sublist ([0x91CD, 0x590D, 0x9879] @ ascii '' 1 (Similarity: 0.9)'')
       (render_report E [(ascii ''A'', [(PStr (ascii ''X''), PFloat ''0.9'')])])"
  by (simp add: one_match_report ascii_def sublist_code(3))


lemma example_loads_one_match:
  "json_loads example_env (resp_text (ok_response (ascii ''one match'')))
     = Inr (PDict [(ascii ''data'', PDict [(ascii ''outputs'', PDict [(ascii ''result'',
          PList [PDict [(ascii ''content'', PStr (ascii ''X'')),
                        (ascii ''metadata'', PDict [(ascii ''score'', PFloat ''0.9'')])]])])])])"
  by (simp add: example_env_def example_loads_def example_match_def ok_response_def ascii_def)

text \<open>
  The run on the example world with one sentence and one match records the entry and
  writes the report; the text \<open>item 1 (Similarity: 0.9)\<close> with the Chinese word for
  the item is not in it as it stands, since the report sets the item and its number
  between bold markers.
\<close>

theorem plain_item_counterexample:
  "fst (run_sentences example_env example_config (split_sentences (ascii ''A'')) []
          (example_world (ascii ''A'') [ok_response (ascii ''one match'')]))
     = Inr [(ascii ''A'', [(PStr (ascii ''X''), PFloat ''0.9'')])]
   \<and> files (snd (duplicate example_env example_config (ascii ''/data/in.md'') (Some (ascii ''/data/out.md''))
          (example_world (ascii ''A'') [ok_response (ascii ''one match'')]))) (ascii ''/data/out.md'')
     = Some (render_report example_env [(ascii ''A'', [(PStr (ascii ''X''), PFloat ''0.9'')])])
   \<and> \<not> sublist ([0x91CD, 0x590D, 0x9879] @ ascii '' 1 (Similarity: 0.9)'')
         (render_report example_env [(ascii ''A'', [(PStr (ascii ''X''), PFloat ''0.9'')])])"
proof -
  let ?w = "example_world (ascii ''A'') [ok_response (ascii ''one match'')]"
  let ?acc = "[(ascii ''A'', [(PStr (ascii ''X''), PFloat ''0.9'')])]"
  let ?st = "sentence_step example_env example_config (ascii ''A'') [] ?w"
  have p: "pending ?w = ok_response (ascii ''one match'') # []" by (simp add: example_world_def)
  have st: "status_code (ok_response (ascii ''one match'')) = 200" by (simp add: ok_response_def)
  from sentence_step_response [OF example_client_ok p st example_loads_one_match, of "ascii ''A''" "[]"]
  have f: "fst ?st = Inr ?acc" by (simp add: one_match_record)
  then have r1: "fst (run_sentences example_env example_config (split_sentences (ascii ''A'')) [] ?w) = Inr ?acc"
    by (simp add: example_split run_sentences_single del: run_sentences.simps)
  from f have run: "run_sentences example_env example_config (split_sentences (py_str example_env (PStr (ascii ''A'')))) [] ?w
                    = (Inr ?acc, snd ?st)"
    by (simp add: example_split run_sentences_single del: run_sentences.simps) (metis prod.collapse)
  have d: "os_path_dirname (ascii ''/data/out.md'') \<in> dirs ?w" "os_path_dirname (ascii ''/data/out.md'') \<noteq> []"
    using example_out(5) [of "ascii ''A''" "[ok_response (ascii ''one match'')]"] example_out(6)
    by (simp_all add: example_out(2))
  from duplicate_writes_report [OF example_read run example_out(1) example_out(4) d example_out(3)]
  have "files (snd (duplicate example_env example_config (ascii ''/data/in.md'') (Some (ascii ''/data/out.md'')) ?w))
          (ascii ''/data/out.md'') = Some (render_report example_env ?acc)" by simp
  with r1 plain_item_absent [of example_env] show ?thesis by simp
qed

lemma one_match_record_any_keys:
  assumes "dict_get kvs (ascii ''data'') PNone = PDict dkvs"
    and "dict_get dkvs (ascii ''outputs'') (PDict []) = PDict okvs"
    and "dict_get okvs (ascii ''result'') PNone = PList [PDict mkvs]"
    and "map_of mkvs (ascii ''content'') = Some x"
    and "map_of mkvs (ascii ''metadata'') = Some (PDict mdkvs)"
    and "map_of mdkvs (ascii ''score'') = Some sc"
  shows "record_response (PDict kvs) s [] = Inr [(s, [(x, sc)])]"
proof -
  have mp: "match_pair (PList [PDict mkvs]) 0 = Inr (x, sc)"
    using assms(4,5,6) by (simp add: match_pair_def)
  have "append_matches (PList [PDict mkvs]) s [0] (AList.update s [] []) = Inr [(s, [(x, sc)])]"
    using mp by simp
  moreover have "[0..<1] = [0::nat]" by simp
  ultimately show ?thesis
    using assms(1,2,3)
    by (simp add: record_response_def del: append_matches.simps upt_Suc)
qed

lemma example_loads_one_match_ids:
  "json_loads example_env (resp_text (ok_response (ascii ''one match with ids'')))
     = Inr (PDict [(ascii ''task_id'', PStr (ascii ''t1'')),
                   (ascii ''data'', PDict [(ascii ''id'', PStr (ascii ''w1'')),
                                           (ascii ''outputs'', PDict [(ascii ''result'', PList [example_match_ids])])])])"
  by (simp add: example_env_def example_loads_def ok_response_def ascii_def)

text \<open>
  Claim C3, as the code has it. For one sentence whose response holds exactly one match,
  with content \<open>X\<close> and score \<open>0.9\<close> (whatever other keys the response, its \<open>data\<close>, its
  \<open>outputs\<close>, the match and its \<open>metadata\<close> hold besides), the loop builds the record
  with the one entry from the sentence to the list of the pair (\<open>X\<close>, \<open>0.9\<close>). The
  report is the header, the heading of the original sentence, the sentence, the
  heading of the duplicates, the line of item 1 in bold markers followed by
  \<open> (Similarity: 0.9)\<close>, the content \<open>X\<close> and the rule; so it contains the heading
  word, the sentence, the item line with its markers, and \<open>X\<close>.
\<close>

theorem one_match_entry_and_report:
  assumes "DifyAPIClient E config = Inr c" "pending w = r # rs" "status_code r = 200"
    and "json_loads E (resp_text r) = Inr (PDict kvs)"
    and "dict_get kvs (ascii ''data'') PNone = PDict dkvs"
    and "dict_get dkvs (ascii ''outputs'') (PDict []) = PDict okvs"
    and "dict_get okvs (ascii ''result'') PNone = PList [PDict mkvs]"
    and "map_of mkvs (ascii ''content'') = Some (PStr (ascii ''X''))"
    and "map_of mkvs (ascii ''metadata'') = Some (PDict mdkvs)"
    and "map_of mdkvs (ascii ''score'') = Some (PFloat ''0.9'')"
  shows "fst (run_sentences E config [s] [] w) = Inr [(s, [(PStr (ascii ''X''), PFloat ''0.9'')])]
     \<and> render_report E [(s, [(PStr (ascii ''X''), PFloat ''0.9'')])]
         = ascii ''# '' @ [0x91CD, 0x590D, 0x5185, 0x5BB9, 0x68C0, 0x6D4B, 0x7ED3, 0x679C, 10, 10]
           @ ascii ''## '' @ [0x539F, 0x53E5, 10, 10] @ s @ [10, 10]
           @ ascii ''### '' @ [0x91CD, 0x590D, 0x5185, 0x5BB9, 10, 10]
           @ ascii ''**'' @ [0x91CD, 0x590D, 0x9879] @ ascii '' 1** (Similarity: 0.9)'' @ [10, 10]
           @ ascii ''X'' @ [10, 10] @ ascii ''---'' @ [10, 10]
     \<and> sublist [0x539F, 0x53E5] (render_report E [(s, [(PStr (ascii ''X''), PFloat ''0.9'')])])
     \<and> sublist s (render_report E [(s, [(PStr (ascii ''X''), PFloat ''0.9'')])])
     \<and> sublist (ascii ''**'' @ [0x91CD, 0x590D, 0x9879] @ ascii '' 1** (Similarity: 0.9)'')
          (render_report E [(s, [(PStr (ascii ''X''), PFloat ''0.9'')])])
     \<and> sublist (ascii ''X'') (render_report E [(s, [(PStr (ascii ''X''), PFloat ''0.9'')])])"
proof -
  let ?rep = "render_report E [(s, [(PStr (ascii ''X''), PFloat ''0.9'')])]"
  let ?h = "ascii ''# '' @ [0x91CD, 0x590D, 0x5185, 0x5BB9, 0x68C0, 0x6D4B, 0x7ED3, 0x679C, 10, 10] @ ascii ''## ''"
  let ?mid = "[10, 10] @ ascii ''### '' @ [0x91CD, 0x590D, 0x5185, 0x5BB9, 10, 10]"
  let ?item = "ascii ''**'' @ [0x91CD, 0x590D, 0x9879] @ ascii '' 1** (Similarity: 0.9)''"
  note rr = one_match_record_any_keys [OF assms(5) assms(6) assms(7) assms(8) assms(9) assms(10), of s]
  from sentence_step_response [OF assms(1) assms(2) assms(3) assms(4), of s "[]"] rr
  have "fst (sentence_step E config s [] w) = Inr [(s, [(PStr (ascii ''X''), PFloat ''0.9'')])]"
    by simp
  then have a: "fst (run_sentences E config [s] [] w) = Inr [(s, [(PStr (ascii ''X''), PFloat ''0.9'')])]"
    by (simp add: run_sentences_single del: run_sentences.simps)
  note b = one_match_report [of E s "ascii ''X''"]
  have "?rep = ?h @ [0x539F, 0x53E5] @ ([10, 10] @ s @ ?mid @ ?item @ [10, 10] @ ascii ''X'' @ [10, 10] @ ascii ''---'' @ [10, 10])"
    by (simp add: b)
  then have c1: "sublist [0x539F, 0x53E5] ?rep" by (metis sublist_appendI)
  have "?rep = (?h @ [0x539F, 0x53E5, 10, 10]) @ s @ (?mid @ ?item @ [10, 10] @ ascii ''X'' @ [10, 10] @ ascii ''---'' @ [10, 10])"
    by (simp add: b)
  then have c2: "sublist s ?rep" by (metis sublist_appendI)
  have "?rep = (?h @ [0x539F, 0x53E5, 10, 10] @ s @ ?mid) @ ?item @ ([10, 10] @ ascii ''X'' @ [10, 10] @ ascii ''---'' @ [10, 10])"
    by (simp add: b)
  then have c3: "sublist ?item ?rep" by (metis sublist_appendI)
  have "?rep = (?h @ [0x539F, 0x53E5, 10, 10] @ s @ ?mid @ ?item @ [10, 10]) @ ascii ''X'' @ ([10, 10] @ ascii ''---'' @ [10, 10])"
    by (simp add: b)
  then have c4: "sublist (ascii ''X'') ?rep" by (metis sublist_appendI)
  from a b c1 c2 c3 c4 show ?thesis by blast
qed

theorem one_match_entry_and_report_witness:
  "fst (run_sentences example_env example_config [ascii ''A''] []
          (example_world (ascii ''A'') [ok_response (ascii ''one match with ids'')]))
     = Inr [(ascii ''A'', [(PStr (ascii ''X''), PFloat ''0.9'')])]
   \<and> fst (run_sentences example_env example_config [ascii ''A''] []
          (example_world (ascii ''A'') [ok_response (ascii ''one match'')]))
     = Inr [(ascii ''A'', [(PStr (ascii ''X''), PFloat ''0.9'')])]
   \<and> sublist (ascii ''**'' @ [0x91CD, 0x590D, 0x9879] @ ascii '' 1** (Similarity: 0.9)'')
        (render_report example_env [(ascii ''A'', [(PStr (ascii ''X''), PFloat ''0.9'')])])"
proof -
  let ?w = "example_world (ascii ''A'') [ok_response (ascii ''one match with ids'')]"
  let ?v = "example_world (ascii ''A'') [ok_response (ascii ''one match'')]"
  have p: "pending ?w = ok_response (ascii ''one match with ids'') # []"
    and q: "pending ?v = ok_response (ascii ''one match'') # []" by (simp_all add: example_world_def)
  have st: "status_code (ok_response (ascii ''one match with ids'')) = 200"
    and su: "status_code (ok_response (ascii ''one match'')) = 200" by (simp_all add: ok_response_def)
  have d1: "dict_get [(ascii ''task_id'', PStr (ascii ''t1'')),
                      (ascii ''data'', PDict [(ascii ''id'', PStr (ascii ''w1'')),
                                              (ascii ''outputs'', PDict [(ascii ''result'', PList [example_match_ids])])])]
              (ascii ''data'') PNone
            = PDict [(ascii ''id'', PStr (ascii ''w1'')),
                     (ascii ''outputs'', PDict [(ascii ''result'', PList [example_match_ids])])]"
    and d2: "dict_get [(ascii ''id'', PStr (ascii ''w1'')),
                       (ascii ''outputs'', PDict [(ascii ''result'', PList [example_match_ids])])]
               (ascii ''outputs'') (PDict [])
             = PDict [(ascii ''result'', PList [example_match_ids])]"
    and d3: "dict_get [(ascii ''result'', PList [example_match_ids])] (ascii ''result'') PNone
             = PList [PDict [(ascii ''title'', PStr (ascii ''doc'')),
                             (ascii ''content'', PStr (ascii ''X'')),
                             (ascii ''metadata'', PDict [(ascii ''position'', PInt 1),
                                                         (ascii ''score'', PFloat ''0.9'')])]]"
    by (simp_all add: dict_get_def ascii_def example_match_ids_def)
  have m1: "map_of [(ascii ''title'', PStr (ascii ''doc'')),
                    (ascii ''content'', PStr (ascii ''X'')),
                    (ascii ''metadata'', PDict [(ascii ''position'', PInt 1), (ascii ''score'', PFloat ''0.9'')])]
              (ascii ''content'') = Some (PStr (ascii ''X''))"
    and m2: "map_of [(ascii ''title'', PStr (ascii ''doc'')),
                     (ascii ''content'', PStr (ascii ''X'')),
                     (ascii ''metadata'', PDict [(ascii ''position'', PInt 1), (ascii ''score'', PFloat ''0.9'')])]
               (ascii ''metadata'') = Some (PDict [(ascii ''position'', PInt 1), (ascii ''score'', PFloat ''0.9'')])"
    and m3: "map_of [(ascii ''position'', PInt 1), (ascii ''score'', PFloat ''0.9'')] (ascii ''score'')
               = Some (PFloat ''0.9'')"
    by (simp_all add: ascii_def)
  from one_match_entry_and_report [OF example_client_ok p st example_loads_one_match_ids d1 d2 d3 m1 m2 m3, of "ascii ''A''"]
  have a: "fst (run_sentences example_env example_config [ascii ''A''] [] ?w)
             = Inr [(ascii ''A'', [(PStr (ascii ''X''), PFloat ''0.9'')])]
           \<and> sublist (ascii ''**'' @ [0x91CD, 0x590D, 0x9879] @ ascii '' 1** (Similarity: 0.9)'')
                (render_report example_env [(ascii ''A'', [(PStr (ascii ''X''), PFloat ''0.9'')])])"
    by blast
  have e1: "dict_get [(ascii ''data'', PDict [(ascii ''outputs'', PDict [(ascii ''result'',
               PList [PDict [(ascii ''content'', PStr (ascii ''X'')),
                             (ascii ''metadata'', PDict [(ascii ''score'', PFloat ''0.9'')])]])])])]
              (ascii ''data'') PNone
            = PDict [(ascii ''outputs'', PDict [(ascii ''result'',
               PList [PDict [(ascii ''content'', PStr (ascii ''X'')),
                             (ascii ''metadata'', PDict [(ascii ''score'', PFloat ''0.9'')])]])])]"
    and e2: "dict_get [(ascii ''outputs'', PDict [(ascii ''result'',
               PList [PDict [(ascii ''content'', PStr (ascii ''X'')),
                             (ascii ''metadata'', PDict [(ascii ''score'', PFloat ''0.9'')])]])])]
               (ascii ''outputs'') (PDict [])
             = PDict [(ascii ''result'',
               PList [PDict [(ascii ''content'', PStr (ascii ''X'')),
                             (ascii ''metadata'', PDict [(ascii ''score'', PFloat ''0.9'')])]])]"
    and e3: "dict_get [(ascii ''result'',
               PList [PDict [(ascii ''content'', PStr (ascii ''X'')),
                             (ascii ''metadata'', PDict [(ascii ''score'', PFloat ''0.9'')])]])]
               (ascii ''result'') PNone
             = PList [PDict [(ascii ''content'', PStr (ascii ''X'')),
                             (ascii ''metadata'', PDict [(ascii ''score'', PFloat ''0.9'')])]]"
    by (simp_all add: dict_get_def)
  have n1: "map_of [(ascii ''content'', PStr (ascii ''X'')),
                    (ascii ''metadata'', PDict [(ascii ''score'', PFloat ''0.9'')])]
              (ascii ''content'') = Some (PStr (ascii ''X''))"
    and n2: "map_of [(ascii ''content'', PStr (ascii ''X'')),
                     (ascii ''metadata'', PDict [(ascii ''score'', PFloat ''0.9'')])]
               (ascii ''metadata'') = Some (PDict [(ascii ''score'', PFloat ''0.9'')])"
    and n3: "map_of [(ascii ''score'', PFloat ''0.9'')] (ascii ''score'') = Some (PFloat ''0.9'')"
    by (simp_all add: ascii_def)
  from one_match_entry_and_report [OF example_client_ok q su example_loads_one_match e1 e2 e3 n1 n2 n3, of "ascii ''A''"]
  have "fst (run_sentences example_env example_config [ascii ''A''] [] ?v)
             = Inr [(ascii ''A'', [(PStr (ascii ''X''), PFloat ''0.9'')])]"
    by blast
  with a show ?thesis by blast
qed

section \<open>An output path that exists\<close>

lemma detect_file_type_cases:
  "detect_file_type p = Inr ft \<Longrightarrow>
     ft = ascii ''markdown'' \<or> ft = ascii ''word'' \<or> ft = ascii ''csv'' \<or> ft = ascii ''excel''"
  by (auto simp: detect_file_type_def split: if_splits)

lemma write_guard_existing:
  assumes "files w out = Some old"
    and "(if os_path_dirname out \<noteq> [] then os_path_dirname out else ascii ''.'') \<in> dirs w"
  shows "write_guard out False w
           = (Inl (FileExistsError (ascii ''File '' @ out @ ascii '' already exists and overwrite is set to False'')), w)"
proof -
  have "os_makedirs (if os_path_dirname out \<noteq> [] then os_path_dirname out else ascii ''.'') True w = (Inr (), w)"
    using assms(2) by (simp add: os_makedirs_def)
  moreover have "os_path_exists w out" using assms(1) by (auto simp: os_path_exists_def)
  ultimately show ?thesis by (simp add: write_guard_def Let_def)
qed

lemma doc_handler_write_existing:
  assumes "files w out = Some old" "detect_file_type out = Inr ft"
    and "(if os_path_dirname out \<noteq> [] then os_path_dirname out else ascii ''.'') \<in> dirs w"
  shows "doc_handler_write E content out False w = (Inr False, w)"
proof -
  note g = write_guard_existing [OF assms(1) assms(3)]
  from detect_file_type_cases [OF assms(2)]
  consider "ft = ascii ''markdown''" | "ft = ascii ''word''" | "ft = ascii ''csv''" | "ft = ascii ''excel''"
    by blast
  then show ?thesis
  proof cases
    case 1
    with assms(2) g show ?thesis by (simp add: doc_handler_write_def write_markdown_def ascii_def)
  next
    case 2
    with assms(2) g show ?thesis by (simp add: doc_handler_write_def write_word_def ascii_def)
  next
    case 3
    with assms(2) g show ?thesis by (simp add: doc_handler_write_def write_csv_def ascii_def)
  next
    case 4
    with assms(2) g show ?thesis by (simp add: doc_handler_write_def write_excel_def ascii_def)
  qed
qed


lemma example_empty_run:
  "run_sentences example_env example_config (split_sentences (py_str example_env (PStr []))) [] (example_world [] [])
     = (Inr [], example_world [] [])"
  by (simp add: split_sentences_def py_strip_def)

lemma example_old:
  "files (example_world content rs) (ascii ''/data/old.txt'') = Some (ascii ''old'')"
  "files (example_world content rs) (ascii ''/data/old.md'') = Some (ascii ''old'')"
  "os_path_dirname (ascii ''/data/old.txt'') = ascii ''/data''"
  "os_path_dirname (ascii ''/data/old.md'') = ascii ''/data''"
  "detect_file_type (ascii ''/data/old.txt'')
     = Inl (ValueError (ascii ''Unable to determine file type from extension. Please specify file_type.''))"
  "detect_file_type (ascii ''/data/old.md'') = Inr (ascii ''markdown'')"
  by (simp_all add: example_world_def ascii_def os_path_dirname_def sep_index_def rstrip_slash_def Let_def
        detect_file_type_def suffix_def)

text \<open>
  An output path that exists and ends in \<open>.txt\<close>: the writer does not get as far as the
  test for an existing file, it raises \<open>ValueError\<close> for the extension, and the run
  ends with that exception.
\<close>

theorem unknown_extension_counterexample:
  "files (example_world [] []) (ascii ''/data/old.txt'') = Some (ascii ''old'')
   \<and> fst (duplicate example_env example_config (ascii ''/data/in.md'') (Some (ascii ''/data/old.txt''))
            (example_world [] []))
       = Inl (ValueError (ascii ''Unable to determine file type from extension. Please specify file_type.''))"
proof -
  have dirx: "os_path_dirname (ascii ''/data/old.txt'') = []
              \<or> os_path_exists (example_world [] []) (os_path_dirname (ascii ''/data/old.txt''))"
    using example_out(5) [of "[]" "[]"] by (simp add: example_old(3) os_path_exists_def)
  have "doc_handler_write example_env (render_report example_env []) (ascii ''/data/old.txt'') False (example_world [] [])
          = (Inl (ValueError (ascii ''Unable to determine file type from extension. Please specify file_type.'')),
             example_world [] [])"
    by (simp add: doc_handler_write_def example_old(5))
  with duplicate_tail [OF example_read example_empty_run _ dirx, of "Some (ascii ''/data/old.txt'')"]
  show ?thesis by (simp add: example_old(1))
qed

text \<open>
  Claim C4, as the code has it. When the output path, given or derived, ends in one of
  the extensions the writer knows (\<open>.md\<close>, \<open>.markdown\<close>, \<open>.docx\<close>, \<open>.csv\<close>, \<open>.xlsx\<close>,
  \<open>.xls\<close>) and names a file that exists (in a directory that exists), and the run gets
  to the write step, then the writer raises \<open>FileExistsError\<close> inside, catches it and
  returns \<open>False\<close>; \<open>duplicate\<close> ignores that and ends without an exception; no file
  has changed, so the old file keeps its content and the report is not written.
\<close>

theorem existing_output_kept:
  assumes "out = (case output_path of None \<Rightarrow> default_output_path E fp | Some p \<Rightarrow> p)"
    and "files w out = Some old" "detect_file_type out = Inr ft"
    and "(if os_path_dirname out \<noteq> [] then os_path_dirname out else ascii ''.'') \<in> dirs w"
    and "doc_handler_read E fp w = Inr content"
    and "run_sentences E config (split_sentences (py_str E content)) [] w = (Inr acc, w1)"
  shows "fst (write_guard out False w1)
           = Inl (FileExistsError (ascii ''File '' @ out @ ascii '' already exists and overwrite is set to False''))
       \<and> fst (doc_handler_write E (render_report E acc) out False w1) = Inr False
       \<and> fst (duplicate E config fp output_path w) = Inr ()
       \<and> files (snd (duplicate E config fp output_path w)) = files w
       \<and> files (snd (duplicate E config fp output_path w)) out = Some old"
proof -
  from run_sentences_fs [of E config "split_sentences (py_str E content)" "[]" w] assms(6)
  have fs: "files w1 = files w" "dirs w1 = dirs w" by simp_all
  then have f1: "files w1 out = Some old"
    and d1: "(if os_path_dirname out \<noteq> [] then os_path_dirname out else ascii ''.'') \<in> dirs w1"
    using assms(2,4) by simp_all
  note g = write_guard_existing [OF f1 d1]
  note wr = doc_handler_write_existing [OF f1 assms(3) d1, of E "render_report E acc"]
  have dirx: "os_path_dirname out = [] \<or> os_path_exists w (os_path_dirname out)"
    using assms(4) by (auto simp: os_path_exists_def split: if_splits)
  from duplicate_tail [OF assms(5) assms(6) assms(1) dirx] wr
  have "duplicate E config fp output_path w = (Inr (), w1)" by simp
  with g wr fs assms(2) show ?thesis by simp
qed

theorem existing_output_kept_witness:
  "fst (duplicate example_env example_config (ascii ''/data/in.md'') (Some (ascii ''/data/old.md''))
          (example_world [] [])) = Inr ()
   \<and> files (snd (duplicate example_env example_config (ascii ''/data/in.md'') (Some (ascii ''/data/old.md''))
          (example_world [] []))) (ascii ''/data/old.md'') = Some (ascii ''old'')"
proof -
  have d: "(if os_path_dirname (ascii ''/data/old.md'') \<noteq> [] then os_path_dirname (ascii ''/data/old.md'') else ascii ''.'')
             \<in> dirs (example_world [] [])"
    using example_out(5) [of "[]" "[]"] example_out(6) by (simp add: example_old(4))
  have o: "ascii ''/data/old.md'' = (case Some (ascii ''/data/old.md'') of None \<Rightarrow> default_output_path example_env (ascii ''/data/in.md'') | Some p \<Rightarrow> p)"
    by simp
  from existing_output_kept [OF o example_old(2) example_old(6) d example_read example_empty_run]
  show ?thesis by blast
qed



section \<open>Cleaning up after a request\<close>

text \<open>
  The two endpoints are the same function of their inputs; \<open>os.unlink\<close> leaves no file
  at its path.
\<close>

lemma endpoints_equal:
  "check_duplicate_content_async E config file output_path w
     = check_duplicate_content_sync E config file output_path w"
  by (simp add: check_duplicate_content_async_def check_duplicate_content_sync_def
        process_file_async_def process_file_sync_def)

lemma os_unlink_files: "files (snd (os_unlink p w)) = (files w)(p := None)"
  by (auto simp: os_unlink_def fun_eq_iff)

lemma os_unlink_file:
  "files w p = Some c \<Longrightarrow> os_unlink p w = (Inr (), w\<lparr>files := (files w)(p := None)\<rparr>)"
  by (auto simp: os_unlink_def)

text \<open>
  What the synchronous endpoint answers and leaves behind, by the outcome of the
  pipeline run on the temporary file.
\<close>

lemma sync_success:
  assumes "tmp = tmp_stem E @ (case filename file of None \<Rightarrow> [] | Some fn \<Rightarrow> if fn \<noteq> [] then snd (os_path_splitext fn) else [])"
    and "rop = (case output_path of
                  None \<Rightarrow> os_path_join (os_path_dirname tmp)
                            (fst (os_path_splitext (os_path_basename tmp)) @ ascii ''_'' @ timestamp E @ ascii ''.md'')
                | Some p \<Rightarrow> p)"
    and "duplicate E config tmp (Some rop) (w\<lparr>files := (files w)(tmp \<mapsto> file_data file)\<rparr>) = (Inr u, w1)"
  shows "check_duplicate_content_sync E config file output_path w
           = (DuplicateCheckResponse (ascii ''Duplicate content check completed successfully'') rop
                (ascii ''/api/v1/download-result/'' @ url_quote E rop),
              snd (os_unlink tmp w1))"
  using assms(3) unfolding assms(1) assms(2)
  by (cases output_path) (simp_all add: check_duplicate_content_sync_def process_file_sync_def Let_def)

lemma sync_failure:
  assumes "tmp = tmp_stem E @ (case filename file of None \<Rightarrow> [] | Some fn \<Rightarrow> if fn \<noteq> [] then snd (os_path_splitext fn) else [])"
    and "rop = (case output_path of
                  None \<Rightarrow> os_path_join (os_path_dirname tmp)
                            (fst (os_path_splitext (os_path_basename tmp)) @ ascii ''_'' @ timestamp E @ ascii ''.md'')
                | Some p \<Rightarrow> p)"
    and "duplicate E config tmp (Some rop) (w\<lparr>files := (files w)(tmp \<mapsto> file_data file)\<rparr>) = (Inl e, w1)"
  shows "fst (check_duplicate_content_sync E config file output_path w)
           = HTTPException 500 (ascii ''Error processing file: '' @ exn_str E e)
         \<and> files (snd (check_duplicate_content_sync E config file output_path w))
           = (if (case output_path of None \<Rightarrow> False | Some p \<Rightarrow> p \<noteq> [])
              then ((files w)(tmp := None))(rop := None)
              else (files w)(tmp := None))"
proof -
  define sup where "sup = (case output_path of None \<Rightarrow> False | Some p \<Rightarrow> p \<noteq> [])"
  define w' where "w' = w1\<lparr>files := (files w1)(tmp := None)\<rparr>"
  define w2 where "w2 = (if sup \<and> os_path_exists w' rop then snd (os_unlink rop w') else w')"
  from duplicate_failure_files [of E config tmp "Some rop" "w\<lparr>files := (files w)(tmp \<mapsto> file_data file)\<rparr>" e] assms(3)
  have f1: "files w1 = (files w)(tmp \<mapsto> file_data file)" by simp
  then have u1: "os_unlink tmp w1 = (Inr (), w')"
    by (simp add: os_unlink_file w'_def)
  have ce: "check_duplicate_content_sync E config file output_path w
              = (HTTPException 500 (ascii ''Error processing file: '' @ exn_str E e), snd (os_unlink tmp w2))"
    using assms(3) u1 unfolding assms(1) assms(2) w2_def sup_def
    by (cases output_path) (simp_all add: check_duplicate_content_sync_def process_file_sync_def Let_def)
  have fw': "files w' = (files w)(tmp := None)" using f1 by (simp add: w'_def)
  have f2: "files w2 = (if sup then ((files w)(tmp := None))(rop := None) else (files w)(tmp := None))"
  proof (cases "sup \<and> os_path_exists w' rop")
    case True
    then show ?thesis using fw' by (simp add: w2_def os_unlink_files)
  next
    case False
    note nf = this
    show ?thesis
    proof (cases sup)
      case True
      with nf have "files w' rop = None" by (auto simp: os_path_exists_def)
      then have "(files w')(rop := None) = files w'" by (rule fun_upd_idem)
      with True nf fw' show ?thesis by (simp add: w2_def)
    next
      case False
      then show ?thesis using fw' by (simp add: w2_def)
    qed
  qed
  have t: "files w2 tmp = None" by (simp add: f2)
  have "files (snd (os_unlink tmp w2)) = (files w2)(tmp := None)" by (rule os_unlink_files)
  also have "\<dots> = files w2" using t by (rule fun_upd_idem)
  finally have "files (snd (os_unlink tmp w2)) = files w2" .
  with ce f2 show ?thesis by (simp add: sup_def)
qed



text \<open>A markdown upload whose one sentence is answered with status 500.\<close>

lemma doc_handler_read_md:
  assumes "suffix (ascii ''.md'') fp" "files w fp = Some content"
  shows "doc_handler_read E fp w = Inr (PStr content)"
proof -
  from assms(1) have "detect_file_type fp = Inr (ascii ''markdown'')"
    by (simp add: detect_file_type_def)
  moreover have "read_markdown fp w = Inr content"
    using assms(2) by (auto simp: read_markdown_def open_read_def os_path_exists_def)
  ultimately show ?thesis by (simp add: doc_handler_read_def ascii_def)
qed

lemma sentence_step_status:
  assumes "DifyAPIClient E config = Inr c" "pending w = r # rs" "status_code r \<noteq> 200"
  shows "fst (sentence_step E config s acc w)
           = Inl (Exception (ascii ''Error: '' @ str_int (status_code r) @ ascii '' - '' @ resp_text r))"
  using assms
  by (simp add: sentence_step_def run_workflow_def requests_post_def Let_def)

lemma example_tmp:
  "tmp_stem example_env @ (case filename example_upload of None \<Rightarrow> []
      | Some fn \<Rightarrow> if fn \<noteq> [] then snd (os_path_splitext fn) else []) = ascii ''/tmp/tmpab12cd.md''"
  by (simp add: example_env_def example_upload_def os_path_splitext_def sep_index_def Let_def ascii_def)

lemma example_upload_fails:
  "fst (duplicate example_env example_config (ascii ''/tmp/tmpab12cd.md'') output_path
          ((example_world [] [error_response])
             \<lparr>files := (files (example_world [] [error_response]))
                          (ascii ''/tmp/tmpab12cd.md'' \<mapsto> file_data example_upload)\<rparr>))
     = Inl (Exception (ascii ''Error: 500 - boom''))"
proof -
  let ?w0 = "(example_world [] [error_response])
             \<lparr>files := (files (example_world [] [error_response]))
                          (ascii ''/tmp/tmpab12cd.md'' \<mapsto> file_data example_upload)\<rparr>"
  have sfx: "suffix (ascii ''.md'') (ascii ''/tmp/tmpab12cd.md'')" by (simp add: ascii_def suffix_def)
  have rd: "doc_handler_read example_env (ascii ''/tmp/tmpab12cd.md'') ?w0 = Inr (PStr (ascii ''A''))"
    by (rule doc_handler_read_md [OF sfx]) (simp add: example_upload_def)
  have p: "pending ?w0 = error_response # []" by (simp add: example_world_def)
  have st: "status_code error_response \<noteq> 200" by (simp add: error_response_def)
  from sentence_step_status [OF example_client_ok p st, of "ascii ''A''" "[]"]
  have "fst (sentence_step example_env example_config (ascii ''A'') [] ?w0)
          = Inl (Exception (ascii ''Error: 500 - boom''))"
    by (simp add: error_response_def str_int_def str_nat.simps ascii_def)
  from run_sentences_Cons_Inl [OF this, of "[]"]
  have "fst (run_sentences example_env example_config (split_sentences (py_str example_env (PStr (ascii ''A'')))) [] ?w0)
          = Inl (Exception (ascii ''Error: 500 - boom''))"
    by (simp add: example_split del: run_sentences.simps)
  then show ?thesis using rd
    by (cases "run_sentences example_env example_config (split_sentences (py_str example_env (PStr (ascii ''A'')))) [] ?w0")
       (simp add: duplicate_def)
qed


lemma example_sync_failure:
  "fst (check_duplicate_content_sync example_env example_config example_upload output_path
          (example_world [] [error_response]))
     = HTTPException 500 (ascii ''Error processing file: error'')
   \<and> files (snd (check_duplicate_content_sync example_env example_config example_upload output_path
          (example_world [] [error_response])))
     = (if (case output_path of None \<Rightarrow> False | Some p \<Rightarrow> p \<noteq> [])
        then ((files (example_world [] [error_response]))(ascii ''/tmp/tmpab12cd.md'' := None))
               ((case output_path of
                  None \<Rightarrow> os_path_join (os_path_dirname (ascii ''/tmp/tmpab12cd.md''))
                            (fst (os_path_splitext (os_path_basename (ascii ''/tmp/tmpab12cd.md'')))
                               @ ascii ''_'' @ timestamp example_env @ ascii ''.md'')
                | Some p \<Rightarrow> p) := None)
        else (files (example_world [] [error_response]))(ascii ''/tmp/tmpab12cd.md'' := None))"
proof -
  let ?w = "example_world [] [error_response]"
  let ?wt = "?w\<lparr>files := (files ?w)(ascii ''/tmp/tmpab12cd.md'' \<mapsto> file_data example_upload)\<rparr>"
  let ?rop = "case output_path of
                  None \<Rightarrow> os_path_join (os_path_dirname (ascii ''/tmp/tmpab12cd.md''))
                            (fst (os_path_splitext (os_path_basename (ascii ''/tmp/tmpab12cd.md'')))
                               @ ascii ''_'' @ timestamp example_env @ ascii ''.md'')
                | Some p \<Rightarrow> p"
  let ?d = "duplicate example_env example_config (ascii ''/tmp/tmpab12cd.md'') (Some ?rop) ?wt"
  have d: "?d = (Inl (Exception (ascii ''Error: 500 - boom'')), snd ?d)"
    using example_upload_fails [of "Some ?rop"] by (metis prod.collapse)
  have x: "exn_str example_env (Exception (ascii ''Error: 500 - boom'')) = ascii ''error''"
    by (simp add: example_env_def)
  have m: "ascii ''Error processing file: '' @ ascii ''error'' = ascii ''Error processing file: error''"
    by (simp add: ascii_def)
  from sync_failure [OF example_tmp [symmetric] refl d] show ?thesis
    by (simp only: x m)
qed

text \<open>
  The asynchronous endpoint on the failing upload, with an output path given that names
  a file: the answer is the error 500 and the file at the output path is gone, as it
  is after the synchronous endpoint.
\<close>

theorem async_cleanup_counterexample:
  "files (example_world [] [error_response]) (ascii ''/data/old.md'') = Some (ascii ''old'')
   \<and> fst (check_duplicate_content_async example_env example_config example_upload
            (Some (ascii ''/data/old.md'')) (example_world [] [error_response]))
       = HTTPException 500 (ascii ''Error processing file: error'')
   \<and> files (snd (check_duplicate_content_async example_env example_config example_upload
            (Some (ascii ''/data/old.md'')) (example_world [] [error_response]))) (ascii ''/data/old.md'')
       = None"
proof -
  have ne: "ascii ''/data/old.md'' \<noteq> []" by (simp add: ascii_def)
  with example_sync_failure [of "Some (ascii ''/data/old.md'')"] show ?thesis
    by (simp add: endpoints_equal example_old(2))
qed

text \<open>
  Claim C2, as the code has it. The two processing endpoints do the same: for every
  upload the temporary input file is gone after the request, whether the run ended
  well or not; when the run failed and the caller gave a non-empty output path, no
  file is left at that path, after the asynchronous endpoint as after the synchronous
  one; when the run failed and no output path was given, nothing but the temporary
  file has been removed.
\<close>

theorem endpoint_cleanup:
  assumes "tmp = tmp_stem E @ (case filename file of None \<Rightarrow> []
                                 | Some fn \<Rightarrow> if fn \<noteq> [] then snd (os_path_splitext fn) else [])"
  shows "check_duplicate_content_async E config file output_path w
           = check_duplicate_content_sync E config file output_path w
       \<and> files (snd (check_duplicate_content_sync E config file output_path w)) tmp = None
       \<and> files (snd (check_duplicate_content_async E config file output_path w)) tmp = None
       \<and> ((\<exists>st d. fst (check_duplicate_content_async E config file output_path w) = HTTPException st d)
            \<and> output_path = Some p \<and> p \<noteq> [] \<longrightarrow>
              files (snd (check_duplicate_content_async E config file output_path w)) p = None
              \<and> files (snd (check_duplicate_content_sync E config file output_path w)) p = None)
       \<and> ((\<exists>st d. fst (check_duplicate_content_sync E config file output_path w) = HTTPException st d)
            \<and> (output_path = None \<or> output_path = Some []) \<longrightarrow>
              files (snd (check_duplicate_content_sync E config file output_path w)) = (files w)(tmp := None))"
proof -
  define rop where "rop = (case output_path of
                  None \<Rightarrow> os_path_join (os_path_dirname tmp)
                            (fst (os_path_splitext (os_path_basename tmp)) @ ascii ''_'' @ timestamp E @ ascii ''.md'')
                | Some p \<Rightarrow> p)"
  let ?sync = "check_duplicate_content_sync E config file output_path w"
  obtain res w1 where d: "duplicate E config tmp (Some rop) (w\<lparr>files := (files w)(tmp \<mapsto> file_data file)\<rparr>) = (res, w1)"
    by (cases "duplicate E config tmp (Some rop) (w\<lparr>files := (files w)(tmp \<mapsto> file_data file)\<rparr>)") blast
  have main: "files (snd ?sync) tmp = None
       \<and> ((\<exists>st d. fst ?sync = HTTPException st d) \<and> output_path = Some p \<and> p \<noteq> [] \<longrightarrow> files (snd ?sync) p = None)
       \<and> ((\<exists>st d. fst ?sync = HTTPException st d) \<and> (output_path = None \<or> output_path = Some []) \<longrightarrow>
              files (snd ?sync) = (files w)(tmp := None))"
  proof (cases res)
    case (Inr u)
    from sync_success [OF assms rop_def d [unfolded Inr]]
    have s: "?sync = (DuplicateCheckResponse (ascii ''Duplicate content check completed successfully'') rop
                (ascii ''/api/v1/download-result/'' @ url_quote E rop), snd (os_unlink tmp w1))" .
    then have "files (snd ?sync) tmp = None" by (simp add: os_unlink_files)
    moreover from s have "\<not> (\<exists>st d. fst ?sync = HTTPException st d)" by simp
    ultimately show ?thesis by blast
  next
    case (Inl e)
    from sync_failure [OF assms rop_def d [unfolded Inl]]
    have f: "files (snd ?sync)
           = (if (case output_path of None \<Rightarrow> False | Some p \<Rightarrow> p \<noteq> [])
              then ((files w)(tmp := None))(rop := None)
              else (files w)(tmp := None))" by simp
    have a: "files (snd ?sync) tmp = None" by (simp add: f)
    have b: "files (snd ?sync) p = None" if "output_path = Some p" "p \<noteq> []"
      unfolding f rop_def using that by simp
    have c: "files (snd ?sync) = (files w)(tmp := None)" if "output_path = None \<or> output_path = Some []"
      unfolding f using that by auto
    show ?thesis
    proof (intro conjI impI)
      show "files (snd ?sync) tmp = None" by (rule a)
    next
      assume "(\<exists>st d. fst ?sync = HTTPException st d) \<and> output_path = Some p \<and> p \<noteq> []"
      then have "output_path = Some p" "p \<noteq> []" by simp_all
      then show "files (snd ?sync) p = None" by (rule b)
    next
      assume "(\<exists>st d. fst ?sync = HTTPException st d) \<and> (output_path = None \<or> output_path = Some [])"
      then have "output_path = None \<or> output_path = Some []" by simp
      then show "files (snd ?sync) = (files w)(tmp := None)" by (rule c)
    qed
  qed
  then show ?thesis unfolding endpoints_equal by fast
qed

theorem endpoint_cleanup_witness:
  "files (snd (check_duplicate_content_sync example_env example_config example_upload
          (Some (ascii ''/data/old.md'')) (example_world [] [error_response]))) (ascii ''/tmp/tmpab12cd.md'') = None
   \<and> files (snd (check_duplicate_content_async example_env example_config example_upload
          (Some (ascii ''/data/old.md'')) (example_world [] [error_response]))) (ascii ''/data/old.md'') = None
   \<and> files (snd (check_duplicate_content_sync example_env example_config example_upload
          None (example_world [] [error_response])))
       = (files (example_world [] [error_response]))(ascii ''/tmp/tmpab12cd.md'' := None)"
proof -
  let ?w = "example_world [] [error_response]"
  have ne: "ascii ''/data/old.md'' \<noteq> []" by (simp add: ascii_def)
  have f1: "\<exists>st d. fst (check_duplicate_content_async example_env example_config example_upload
                          (Some (ascii ''/data/old.md'')) ?w) = HTTPException st d"
    using example_sync_failure [of "Some (ascii ''/data/old.md'')"] by (simp add: endpoints_equal)
  have f2: "\<exists>st d. fst (check_duplicate_content_sync example_env example_config example_upload None ?w)
                     = HTTPException st d"
    using example_sync_failure [of None] by simp
  from endpoint_cleanup [OF example_tmp [symmetric], of example_config "Some (ascii ''/data/old.md'')" ?w "ascii ''/data/old.md''"]
    f1 ne
  have a: "files (snd (check_duplicate_content_sync example_env example_config example_upload
          (Some (ascii ''/data/old.md'')) ?w)) (ascii ''/tmp/tmpab12cd.md'') = None
     \<and> files (snd (check_duplicate_content_async example_env example_config example_upload
          (Some (ascii ''/data/old.md'')) ?w)) (ascii ''/data/old.md'') = None"
    by fast
  from endpoint_cleanup [OF example_tmp [symmetric], of example_config None ?w "[]"] f2
  have "files (snd (check_duplicate_content_sync example_env example_config example_upload None ?w))
       = (files ?w)(ascii ''/tmp/tmpab12cd.md'' := None)"
    by fast
  with a show ?thesis by fast
qed


end
